theory Spec2Isabelle
  imports Main
begin

section \<open>Python strings\<close>

text \<open>
  A Python \<open>str\<close> is a sequence of Unicode code points. It is modelled as a list of
  natural numbers, one per code point, so that \<open>str.strip()\<close> can classify every
  character the way Python does. Literals of the source are ASCII and are written with
  \<open>ascii\<close>.
\<close>

type_synonym pystr = "nat list"

definition ascii :: "string \<Rightarrow> pystr" where
  "ascii s = map of_char s"

text \<open>
  \<open>str.isspace\<close> on one character: the code points Python treats as whitespace
  (U+0009..U+000D, U+001C..U+0020, U+0085, U+00A0, U+1680, U+2000..U+200A, U+2028,
  U+2029, U+202F, U+205F, U+3000). These are the characters \<open>strip()\<close> removes.
\<close>

definition isspace :: "nat \<Rightarrow> bool" where
  "isspace c \<longleftrightarrow>
     (9 \<le> c \<and> c \<le> 13) \<or> (28 \<le> c \<and> c \<le> 32) \<or> c = 133 \<or> c = 160 \<or> c = 5760 \<or>
     (8192 \<le> c \<and> c \<le> 8202) \<or> c = 8232 \<or> c = 8233 \<or> c = 8239 \<or> c = 8287 \<or>
     c = 12288"

definition py_strip :: "pystr \<Rightarrow> pystr" where
  "py_strip s = rev (dropWhile isspace (rev (dropWhile isspace s)))"

definition startswith :: "pystr \<Rightarrow> pystr \<Rightarrow> bool" where
  "startswith s p \<longleftrightarrow> take (length p) s = p"

definition endswith :: "pystr \<Rightarrow> pystr \<Rightarrow> bool" where
  "endswith s p \<longleftrightarrow> length p \<le> length s \<and> drop (length s - length p) s = p"

text \<open>\<open>s.split(c)\<close> for a separator of one character: always at least one piece.\<close>

fun py_split :: "nat \<Rightarrow> pystr \<Rightarrow> pystr list" where
  "py_split sep [] = [[]]"
| "py_split sep (c # cs) =
     (if c = sep then [] # py_split sep cs
      else (case py_split sep cs of
              [] \<Rightarrow> [[c]]
            | piece # pieces \<Rightarrow> (c # piece) # pieces))"

text \<open>\<open>sep.join(xs)\<close>.\<close>

fun py_join :: "pystr \<Rightarrow> pystr list \<Rightarrow> pystr" where
  "py_join sep [] = []"
| "py_join sep [x] = x"
| "py_join sep (x # y # ys) = x @ sep @ py_join sep (y # ys)"

text \<open>\<open>str(n)\<close> for a non-negative integer: its decimal digits.\<close>

fun str_nat :: "nat \<Rightarrow> pystr" where
  "str_nat n = (if n < 10 then [48 + n] else str_nat (n div 10) @ [48 + n mod 10])"

declare str_nat.simps [simp del]

text \<open>\<open>enumerate(xs, start)\<close>.\<close>

fun enumerate_from :: "nat \<Rightarrow> 'a list \<Rightarrow> (nat \<times> 'a) list" where
  "enumerate_from i [] = []"
| "enumerate_from i (x # xs) = (i, x) # enumerate_from (Suc i) xs"

section \<open>Exceptions, diagnostics and the file system\<close>

text \<open>
  The exception classes that occur. All of them derive from Python's \<open>Exception\<close>;
  \<open>OtherError\<close> stands for every further subclass of \<open>Exception\<close> that template
  application may raise (a \<open>TypeError\<close>, an \<open>UndefinedError\<close>, a syntax error of
  the template).
\<close>

datatype exc =
    KeyError
  | TemplateNotFound
  | UnboundLocalError
  | FileNotFoundError
  | FileExistsError
  | IsADirectoryError
  | NotADirectoryError
  | YAMLError
  | TypeError
  | AttributeError
  | OtherError

text \<open>How control leaves \<open>main\<close> early: \<open>sys.exit(n)\<close> or an exception nobody caught.\<close>

datatype abort = SystemExit int | Uncaught exc

text \<open>
  A path is the list of its components from the root directory, as \<open>pathlib\<close> keeps
  them: a relative path of the source is taken with the working directory in front.
  \<open>[]\<close> is the root, which always exists. A component \<open>..\<close> is kept in the path
  and followed when the path is looked up. \<open>Path.parent\<close> drops the last component.
\<close>

type_synonym path = "pystr list"

definition parent :: "path \<Rightarrow> path" where
  "parent p = butlast p"

text \<open>
  \<open>Path(base) / name\<close> for a string \<open>name\<close>: the string is cut at \<open>'/'\<close>, empty
  pieces and \<open>'.'\<close> are dropped, and a name that begins with \<open>'/'\<close> replaces the base.
\<close>

definition path_components :: "pystr \<Rightarrow> path" where
  "path_components name = filter (\<lambda>c. c \<noteq> [] \<and> c \<noteq> ascii ''.'') (py_split 47 name)"

definition path_join :: "path \<Rightarrow> pystr \<Rightarrow> path" where
  "path_join base name =
     (if startswith name (ascii ''/'') then path_components name
      else base @ path_components name)"

text \<open>
  The file system maps the place of every directory and file to what is there. There
  are no symbolic links and no permissions.
\<close>

datatype node = Dir | File pystr

type_synonym filesystem = "path \<rightharpoonup> node"

definition node_at :: "filesystem \<Rightarrow> path \<Rightarrow> node option" where
  "node_at fs p = (if p = [] then Some Dir else fs p)"

text \<open>
  Looking a path up, starting in the directory at \<open>cur\<close>: every component but the
  last must lead to a directory, a missing one is \<open>FileNotFoundError\<close> and a regular
  file on the way is \<open>NotADirectoryError\<close>; \<open>..\<close> leads to the parent. The result is
  the place the path names, whether or not something is there.
\<close>

fun locate :: "filesystem \<Rightarrow> path \<Rightarrow> path \<Rightarrow> exc + path" where
  "locate fs cur [] = Inr cur"
| "locate fs cur [c] = Inr (if c = ascii ''..'' then butlast cur else cur @ [c])"
| "locate fs cur (c # d # cs) =
     (if c = ascii ''..'' then locate fs (butlast cur) (d # cs)
      else (case node_at fs (cur @ [c]) of
              Some Dir \<Rightarrow> locate fs (cur @ [c]) (d # cs)
            | Some (File _) \<Rightarrow> Inl NotADirectoryError
            | None \<Rightarrow> Inl FileNotFoundError))"

text \<open>
  \<open>Path.mkdir(exist_ok=True)\<close>, without \<open>parents=True\<close>: an existing directory is
  left alone, an existing file is an error, and the directories above are not created.
\<close>

definition mkdir_exist_ok :: "path \<Rightarrow> filesystem \<Rightarrow> exc + filesystem" where
  "mkdir_exist_ok p fs =
     (case locate fs [] p of
        Inl e \<Rightarrow> Inl e
      | Inr place \<Rightarrow>
          (case node_at fs place of
             Some Dir \<Rightarrow> Inr fs
           | Some (File _) \<Rightarrow> Inl FileExistsError
           | None \<Rightarrow> Inr (fs(place \<mapsto> Dir))))"

text \<open>\<open>with open(p, 'r') as f: f.read()\<close>.\<close>

definition open_read :: "path \<Rightarrow> filesystem \<Rightarrow> exc + pystr" where
  "open_read p fs =
     (case locate fs [] p of
        Inl e \<Rightarrow> Inl e
      | Inr place \<Rightarrow>
          (case node_at fs place of
             None \<Rightarrow> Inl FileNotFoundError
           | Some Dir \<Rightarrow> Inl IsADirectoryError
           | Some (File content) \<Rightarrow> Inr content))"

text \<open>
  \<open>with open(p, 'w') as f: f.write(text)\<close>: no directory is created; an existing
  file is replaced.
\<close>

definition open_write :: "path \<Rightarrow> pystr \<Rightarrow> filesystem \<Rightarrow> exc + filesystem" where
  "open_write p text fs =
     (case locate fs [] p of
        Inl e \<Rightarrow> Inl e
      | Inr place \<Rightarrow>
          (case node_at fs place of
             Some Dir \<Rightarrow> Inl IsADirectoryError
           | _ \<Rightarrow> Inr (fs(place \<mapsto> File text))))"

text \<open>The lines the program prints, one constructor per \<open>print\<close> of the source.\<close>

datatype diag =
    LoadedInput path
  | InputNotFound path
  | YamlParseError
  | TemplateWarning pystr
  | RenderError pystr exc
  | RenderingTemplates
  | RenderingSection pystr
  | RenderedOk path
  | Validating
  | ValidationErrorsFound
  | ValidationError pystr
  | ValidationPassed
  | RenderingComplete

section \<open>The configuration renderer\<close>

text \<open>
  A compiled Jinja2 template is what \<open>template.render(**data)\<close> computes from the
  input document: the rendered text, or the exception it raises. The environment is what
  \<open>env.get_template\<close> computes from a template identifier: the template, or
  \<open>TemplateNotFound\<close> (or another exception). Both belong to the Jinja2 library and to
  the template files, not to this repository, so they are parameters of the model. The
  input document is of an arbitrary type \<open>'d\<close>: the renderer only passes it on.
\<close>

type_synonym 'd template = "'d \<Rightarrow> exc + pystr"

type_synonym 'd environment = "pystr \<Rightarrow> exc + 'd template"

text \<open>
  The object \<open>self\<close>. The dictionary \<open>template_files\<close> is kept as the list of its
  items in insertion order, which is the order \<open>keys()\<close> iterates in.
\<close>

record 'd ConfigRenderer =
  templates_dir :: path
  output_dir :: path
  env :: "'d environment"
  template_files :: "(pystr \<times> pystr) list"

text \<open>
  The state every method works on: the object, the file system and the printed lines.
  Each method returns the state it leaves behind.
\<close>

record 'd state =
  self :: "'d ConfigRenderer"
  fs :: filesystem
  out :: "diag list"

definition print :: "diag \<Rightarrow> 'd state \<Rightarrow> 'd state" where
  "print d st = st\<lparr>out := out st @ [d]\<rparr>"

text \<open>
  \<open>ConfigRenderer.__init__\<close>. The argument \<open>jinja\<close> stands for
  \<open>Environment(loader=FileSystemLoader(templates_dir), ...)\<close>. The directory is
  created before anything else is assigned.
\<close>

definition ConfigRenderer_init ::
  "(path \<Rightarrow> 'd environment) \<Rightarrow> path \<Rightarrow> path \<Rightarrow> filesystem \<Rightarrow> exc + 'd state" where
  "ConfigRenderer_init jinja tdir odir fs0 =
     (case mkdir_exist_ok odir fs0 of
        Inl e \<Rightarrow> Inl e
      | Inr fs1 \<Rightarrow>
          Inr \<lparr>self = \<lparr>templates_dir = tdir,
                       output_dir = odir,
                       env = jinja tdir,
                       template_files =
                         [(ascii ''bgp'', ascii ''bgp.j2''),
                          (ascii ''routing_filters'', ascii ''routing_filters.j2''),
                          (ascii ''interfaces'', ascii ''interfaces.j2''),
                          (ascii ''vlans'', ascii ''vlans.j2''),
                          (ascii ''system'', ascii ''system.j2'')]\<rparr>,
               fs = fs1,
               out = []\<rparr>)"

text \<open>
  \<open>load_yaml_input\<close>. \<open>yaml\<close> stands for \<open>yaml.safe_load\<close>. A missing file and
  a YAML error both become \<open>sys.exit(1)\<close>; any other exception of \<open>open\<close> is not
  caught.
\<close>

definition load_yaml_input ::
  "(pystr \<Rightarrow> exc + 'd) \<Rightarrow> path \<Rightarrow> 'd state \<Rightarrow> (abort + 'd) \<times> 'd state" where
  "load_yaml_input yaml input_file st =
     (case open_read input_file (fs st) of
        Inl FileNotFoundError \<Rightarrow> (Inl (SystemExit 1), print (InputNotFound input_file) st)
      | Inl e \<Rightarrow> (Inl (Uncaught e), st)
      | Inr content \<Rightarrow>
          (case yaml content of
             Inl YAMLError \<Rightarrow> (Inl (SystemExit 1), print YamlParseError st)
           | Inl e \<Rightarrow> (Inl (Uncaught e), st)
           | Inr data \<Rightarrow> (Inr data, print (LoadedInput input_file) st)))"

text \<open>
  The body of the \<open>try\<close> in \<open>render_template\<close>: the dictionary lookup, then
  \<open>get_template\<close>, then \<open>render\<close>; the first exception ends it.
\<close>

definition render_template_try :: "'d ConfigRenderer \<Rightarrow> pystr \<Rightarrow> 'd \<Rightarrow> exc + pystr" where
  "render_template_try r template_name data =
     (case map_of (template_files r) template_name of
        None \<Rightarrow> Inl KeyError
      | Some template_file \<Rightarrow>
          (case env r template_file of
             Inl e \<Rightarrow> Inl e
           | Inr template \<Rightarrow> template data))"

text \<open>
  \<open>render_template\<close>. The handler for \<open>TemplateNotFound\<close> reads the local
  variable \<open>template_file\<close>, which is bound only once the dictionary lookup has
  succeeded; reading it unbound would raise \<open>UnboundLocalError\<close> out of the handler.
  Every other exception goes to the second handler.
\<close>

definition render_template ::
  "pystr \<Rightarrow> 'd \<Rightarrow> 'd state \<Rightarrow> (exc + pystr) \<times> 'd state" where
  "render_template template_name data st =
     (case render_template_try (self st) template_name data of
        Inr rendered \<Rightarrow> (Inr rendered, st)
      | Inl TemplateNotFound \<Rightarrow>
          (case map_of (template_files (self st)) template_name of
             None \<Rightarrow> (Inl UnboundLocalError, st)
           | Some template_file \<Rightarrow> (Inr [], print (TemplateWarning template_file) st))
      | Inl e \<Rightarrow> (Inr [], print (RenderError template_name e) st))"

text \<open>
  The \<open>for\<close> loop of \<open>render_all_templates\<close> over the keys that are left, with the
  list \<open>config_sections\<close> built so far.
\<close>

fun render_sections ::
  "pystr list \<Rightarrow> 'd \<Rightarrow> pystr list \<Rightarrow> 'd state \<Rightarrow> (exc + pystr list) \<times> 'd state" where
  "render_sections [] data config_sections st = (Inr config_sections, st)"
| "render_sections (template_name # names) data config_sections st =
     (case render_template template_name data (print (RenderingSection template_name) st) of
        (Inl e, st') \<Rightarrow> (Inl e, st')
      | (Inr rendered, st') \<Rightarrow>
          render_sections names data
            (if py_strip rendered \<noteq> [] then config_sections @ [rendered] else config_sections)
            st')"

text \<open>
  The first half of \<open>render_all_templates\<close>, up to the assignment of
  \<open>complete_config\<close>: the loop over \<open>template_files.keys()\<close> and the join.
\<close>

definition complete_config :: "'d \<Rightarrow> 'd state \<Rightarrow> (exc + pystr) \<times> 'd state" where
  "complete_config data st =
     (case render_sections (map fst (template_files (self st))) data []
             (print RenderingTemplates st) of
        (Inl e, st') \<Rightarrow> (Inl e, st')
      | (Inr config_sections, st') \<Rightarrow> (Inr (py_join (ascii ''\<newline>'') config_sections), st'))"

text \<open>
  \<open>render_all_templates\<close>: the composition, then the write. The default destination
  is \<open>self.output_dir / f"{device_name}_config.txt"\<close>.
\<close>

definition render_all_templates ::
  "'d \<Rightarrow> pystr \<Rightarrow> path option \<Rightarrow> 'd state \<Rightarrow> (exc + pystr) \<times> 'd state" where
  "render_all_templates data device_name output_file_arg st =
     (case complete_config data st of
        (Inl e, st1) \<Rightarrow> (Inl e, st1)
      | (Inr config, st1) \<Rightarrow>
          (let output_file =
                 (case output_file_arg of
                    None \<Rightarrow>
                      path_join (output_dir (self st1)) (device_name @ ascii ''_config.txt'')
                  | Some p \<Rightarrow> p)
           in case open_write output_file config (fs st1) of
                Inl e \<Rightarrow> (Inl e, st1)
              | Inr fs2 \<Rightarrow> (Inr config, print (RenderedOk output_file) (st1\<lparr>fs := fs2\<rparr>))))"

text \<open>
  The loop of \<open>validate_config\<close> over \<open>enumerate(lines, 1)\<close>, with the list
  \<open>validation_errors\<close> built so far. The loop variable \<open>line\<close> is replaced by its
  stripped form before any check reads it.
\<close>

fun validate_lines :: "(nat \<times> pystr) list \<Rightarrow> pystr list \<Rightarrow> pystr list" where
  "validate_lines [] validation_errors = validation_errors"
| "validate_lines ((i, raw) # rest) validation_errors =
     (let line = py_strip raw in
      if line = [] \<or> startswith line (ascii ''!'') then validate_lines rest validation_errors
      else if endswith line (ascii '' '')
           then validate_lines rest
                  (validation_errors @
                     [ascii ''Line '' @ str_nat i @ ascii '': Trailing whitespace''])
           else validate_lines rest validation_errors)"

definition validation_errors_of :: "pystr \<Rightarrow> pystr list" where
  "validation_errors_of config_text =
     validate_lines (enumerate_from 1 (py_split 10 config_text)) []"

text \<open>\<open>validate_config\<close>: the returned boolean and the printed findings.\<close>

definition validate_config :: "pystr \<Rightarrow> 'd state \<Rightarrow> bool \<times> 'd state" where
  "validate_config config_text st =
     (let st1 = print Validating st;
          validation_errors = validation_errors_of config_text
      in if validation_errors \<noteq> []
         then (False, foldl (\<lambda>s e. print (ValidationError e) s)
                        (print ValidationErrorsFound st1) validation_errors)
         else (True, print ValidationPassed st1))"

text \<open>
  The command line of \<open>render_config.py\<close>, already parsed, and the working directory
  of the process, against which the relative default \<open>"output"\<close> is taken.
  \<open>output_dir_arg\<close> is \<open>None\<close> when \<open>--output-dir\<close> is absent or empty, the two
  cases the source treats alike.
\<close>

record args =
  working_dir :: path
  input_file :: path
  device_name :: pystr
  templates_dir_arg :: path
  output_dir_arg :: "path option"
  validate :: bool

text \<open>The exit status of the process: 0 when \<open>main\<close> returns, 1 for a traceback.\<close>

fun exit_status :: "abort + unit \<Rightarrow> int" where
  "exit_status (Inr _) = 0"
| "exit_status (Inl (SystemExit n)) = n"
| "exit_status (Inl (Uncaught _)) = 1"

text \<open>
  \<open>main\<close> of \<open>render_config.py\<close>: how it ends, and the file system and the printed
  lines it leaves.
\<close>

definition render_config_main ::
  "(path \<Rightarrow> 'd environment) \<Rightarrow> (pystr \<Rightarrow> exc + 'd) \<Rightarrow> args \<Rightarrow> filesystem \<Rightarrow>
     (abort + unit) \<times> filesystem \<times> diag list" where
  "render_config_main jinja yaml a fs0 =
     (case ConfigRenderer_init jinja (templates_dir_arg a)
             (case output_dir_arg a of
                None \<Rightarrow> working_dir a @ [ascii ''output'']
              | Some d \<Rightarrow> d) fs0 of
        Inl e \<Rightarrow> (Inl (Uncaught e), fs0, [])
      | Inr st0 \<Rightarrow>
          (case load_yaml_input yaml (input_file a) st0 of
             (Inl ab, st1) \<Rightarrow> (Inl ab, fs st1, out st1)
           | (Inr data, st1) \<Rightarrow>
               (let output_file =
                      (case output_dir_arg a of
                         Some d \<Rightarrow> path_join d (device_name a @ ascii ''_config.txt'')
                       | None \<Rightarrow>
                           path_join (parent (input_file a))
                             (device_name a @ ascii ''_config.txt''))
                in case render_all_templates data (device_name a) (Some output_file) st1 of
                     (Inl e, st2) \<Rightarrow> (Inl (Uncaught e), fs st2, out st2)
                   | (Inr config, st2) \<Rightarrow>
                       (if validate a
                        then (case validate_config config st2 of
                                (False, st3) \<Rightarrow> (Inl (SystemExit 1), fs st3, out st3)
                              | (True, st3) \<Rightarrow>
                                  (Inr (), fs st3, out (print RenderingComplete st3)))
                        else (Inr (), fs st2, out (print RenderingComplete st2))))))"

section \<open>The ServiceNow integration\<close>

text \<open>A decoded JSON value; an object is the list of its items.\<close>

datatype json =
    JNull
  | JBool bool
  | JNum int
  | JStr pystr
  | JList "json list"
  | JDict "(pystr \<times> json) list"

text \<open>Python's truth value of a decoded JSON value.\<close>

fun truthy :: "json \<Rightarrow> bool" where
  "truthy JNull = False"
| "truthy (JBool b) = b"
| "truthy (JNum n) = (n \<noteq> 0)"
| "truthy (JStr s) = (s \<noteq> [])"
| "truthy (JList xs) = (xs \<noteq> [])"
| "truthy (JDict kvs) = (kvs \<noteq> [])"

text \<open>\<open>data.get(key)\<close>: only a dictionary has the method.\<close>

fun json_get :: "json \<Rightarrow> pystr \<Rightarrow> exc + json" where
  "json_get (JDict kvs) key = (case map_of kvs key of None \<Rightarrow> Inr JNull | Some v \<Rightarrow> Inr v)"
| "json_get _ key = Inl AttributeError"

text \<open>\<open>x[0]\<close>.\<close>

fun json_first :: "json \<Rightarrow> exc + json" where
  "json_first (JList []) = Inl OtherError"
| "json_first (JList (x # xs)) = Inr x"
| "json_first (JStr []) = Inl OtherError"
| "json_first (JStr (c # cs)) = Inr (JStr [c])"
| "json_first (JDict kvs) = Inl KeyError"
| "json_first _ = Inl TypeError"

text \<open>\<open>x[key]\<close> for a string key.\<close>

fun json_item :: "json \<Rightarrow> pystr \<Rightarrow> exc + json" where
  "json_item (JDict kvs) key = (case map_of kvs key of None \<Rightarrow> Inl KeyError | Some v \<Rightarrow> Inr v)"
| "json_item _ key = Inl TypeError"

text \<open>
  The HTTP side. A response is its status code and what \<open>response.json()\<close> gives. The
  two calls of the \<open>requests\<close> library are parameters of the model. A request is kept
  as the values the source puts into it: the URL of a \<open>PUT\<close> is the table URL and the
  record's \<open>sys_id\<close>, its body the fields of \<open>update_data\<close> before
  \<open>json.dumps\<close>.
\<close>

record response =
  status_code :: int
  json_body :: "exc + json"

record get_request =
  get_url :: pystr
  get_auth :: "pystr \<times> pystr"
  sysparm_query :: pystr
  sysparm_limit :: int

record put_request =
  put_url :: pystr
  put_sys_id :: json
  put_auth :: "pystr \<times> pystr"
  state_field :: pystr
  work_notes :: pystr

datatype request = GET get_request | PUT put_request

record http =
  requests_get :: "get_request \<Rightarrow> exc + response"
  requests_put :: "put_request \<Rightarrow> exc + response"

record ServiceNowIntegration =
  instance_url :: pystr
  auth :: "pystr \<times> pystr"

definition ServiceNowIntegration_init :: "pystr \<Rightarrow> pystr \<Rightarrow> pystr \<Rightarrow> ServiceNowIntegration" where
  "ServiceNowIntegration_init url username password =
     \<lparr>instance_url = url, auth = (username, password)\<rparr>"

text \<open>
  \<open>update_change_request\<close>: the returned boolean and the requests sent, in order.
  Every exception inside is caught and gives \<open>False\<close>. \<open>now\<close> is
  \<open>datetime.now().isoformat()\<close>.
\<close>

definition update_change_request ::
  "http \<Rightarrow> pystr \<Rightarrow> ServiceNowIntegration \<Rightarrow> pystr \<Rightarrow> pystr \<Rightarrow> pystr \<Rightarrow> bool \<times> request list" where
  "update_change_request web now snow change_number status comments =
     (let url = instance_url snow @ ascii ''/api/now/table/change_request'';
          lookup = \<lparr>get_url = url, get_auth = auth snow,
                    sysparm_query = ascii ''number='' @ change_number, sysparm_limit = 1\<rparr>
      in case requests_get web lookup of
           Inl e \<Rightarrow> (False, [GET lookup])
         | Inr resp \<Rightarrow>
             if status_code resp \<noteq> 200 then (False, [GET lookup])
             else
               (case json_body resp of
                  Inl e \<Rightarrow> (False, [GET lookup])
                | Inr data \<Rightarrow>
                    (case json_get data (ascii ''result'') of
                       Inl e \<Rightarrow> (False, [GET lookup])
                     | Inr result \<Rightarrow>
                         if \<not> truthy result then (False, [GET lookup])
                         else
                           (case json_first result of
                              Inl e \<Rightarrow> (False, [GET lookup])
                            | Inr record \<Rightarrow>
                                (case json_item record (ascii ''sys_id'') of
                                   Inl e \<Rightarrow> (False, [GET lookup])
                                 | Inr sys_id \<Rightarrow>
                                     (let update =
                                            \<lparr>put_url = url, put_sys_id = sys_id,
                                             put_auth = auth snow,
                                             state_field = status,
                                             work_notes =
                                               ascii ''GitHub Actions Update: '' @ comments @
                                               [92, 110, 92, 110] @ ascii ''Timestamp: '' @ now\<rparr>
                                      in case requests_put web update of
                                           Inl e \<Rightarrow> (False, [GET lookup, PUT update])
                                         | Inr update_response \<Rightarrow>
                                             (status_code update_response = 200,
                                              [GET lookup, PUT update])))))))"

text \<open>The dictionary \<open>status_mapping\<close> of \<open>main\<close> and \<open>dict.get(key, default)\<close>.\<close>

definition status_mapping :: "(pystr \<times> pystr) list" where
  "status_mapping =
     [(ascii ''success'', ascii ''Review''),
      (ascii ''failure'', ascii ''Authorize''),
      (ascii ''cancelled'', ascii ''Cancelled'')]"

definition dict_get :: "('k \<times> 'v) list \<Rightarrow> 'k \<Rightarrow> 'v \<Rightarrow> 'v" where
  "dict_get d k dflt = (case map_of d k of None \<Rightarrow> dflt | Some v \<Rightarrow> v)"

text \<open>\<open>os.getenv(name)\<close> is a lookup in the environment; \<open>all([...])\<close> wants every
  value present and non-empty.\<close>

definition configured :: "pystr option \<Rightarrow> bool" where
  "configured v = (case v of None \<Rightarrow> False | Some s \<Rightarrow> s \<noteq> [])"

text \<open>
  \<open>main\<close> of \<open>servicenow_integration.py\<close>: the exit status and the requests sent.
\<close>

definition servicenow_main ::
  "(pystr \<rightharpoonup> pystr) \<Rightarrow> http \<Rightarrow> pystr \<Rightarrow> int \<times> request list" where
  "servicenow_main getenv web now =
     (let url = getenv (ascii ''SERVICENOW_INSTANCE_URL'');
          username = getenv (ascii ''SERVICENOW_USERNAME'');
          password = getenv (ascii ''SERVICENOW_PASSWORD'');
          change_number = (case getenv (ascii ''GITHUB_HEAD_REF'') of
                             None \<Rightarrow> ascii ''CHG0000000'' | Some v \<Rightarrow> v);
          workflow_status = (case getenv (ascii ''WORKFLOW_STATUS'') of
                               None \<Rightarrow> ascii ''unknown'' | Some v \<Rightarrow> v)
      in case (url, username, password) of
           (Some u, Some n, Some pw) \<Rightarrow>
             if \<not> (configured url \<and> configured username \<and> configured password) then (0, [])
             else
               (let snow = ServiceNowIntegration_init u n pw;
                    snow_status = dict_get status_mapping workflow_status (ascii ''Authorize'');
                    comments = ascii ''GitHub Actions workflow completed with status: '' @
                               workflow_status
                in case update_change_request web now snow change_number snow_status comments of
                     (success, sent) \<Rightarrow> (if \<not> success then 1 else 0, sent))
         | _ \<Rightarrow> (0, []))"

section \<open>Observations and scenarios\<close>

text \<open>
  The names for which the composition loop announced a call of \<open>render_template\<close>,
  read off the printed lines in order.
\<close>

definition section_calls :: "diag list \<Rightarrow> pystr list" where
  "section_calls ds =
     concat (map (\<lambda>d. case d of RenderingSection n \<Rightarrow> [n] | _ \<Rightarrow> []) ds)"

text \<open>
  A small template directory for the scenarios: \<open>ok.tmpl\<close> renders
  \<open>"interface Eth1"\<close> for any input, \<open>broken.tmpl\<close> raises a \<open>TypeError\<close> when
  applied, and no other template exists. The input document is of type \<open>unit\<close>.
\<close>

definition scenario_env :: "unit environment" where
  "scenario_env template_file =
     (if template_file = ascii ''ok.tmpl'' then Inr (\<lambda>_. Inr (ascii ''interface Eth1''))
      else if template_file = ascii ''broken.tmpl'' then Inr (\<lambda>_. Inl TypeError)
      else Inl TemplateNotFound)"

text \<open>
  A renderer whose registry is \<open>[("interfaces", "ok.tmpl"), ("vlans", "missing.tmpl")]\<close>,
  on a file system that holds the directory \<open>output\<close> and nothing else.
\<close>

definition scenario_state :: "unit state" where
  "scenario_state =
     \<lparr>self = \<lparr>templates_dir = [ascii ''templates''],
              output_dir = [ascii ''output''],
              env = scenario_env,
              template_files = [(ascii ''interfaces'', ascii ''ok.tmpl''),
                                (ascii ''vlans'', ascii ''missing.tmpl'')]\<rparr>,
      fs = [[ascii ''output''] \<mapsto> Dir],
      out = []\<rparr>"

text \<open>
  A template directory with every kind of failure: \<open>broken.tmpl\<close> raises a
  \<open>TypeError\<close> when it is applied, \<open>include.tmpl\<close> raises \<open>TemplateNotFound\<close>
  when it is applied (it includes a template that is not there), \<open>syntax.tmpl\<close> cannot
  be compiled, \<open>ok.tmpl\<close> renders, and no other template exists; and a renderer whose
  registry names one of each.
\<close>

definition scenario_faulty_env :: "unit environment" where
  "scenario_faulty_env template_file =
     (if template_file = ascii ''ok.tmpl'' then Inr (\<lambda>_. Inr (ascii ''interface Eth1''))
      else if template_file = ascii ''broken.tmpl'' then Inr (\<lambda>_. Inl TypeError)
      else if template_file = ascii ''include.tmpl'' then Inr (\<lambda>_. Inl TemplateNotFound)
      else if template_file = ascii ''syntax.tmpl'' then Inl OtherError
      else Inl TemplateNotFound)"

definition scenario_faulty_state :: "unit state" where
  "scenario_faulty_state =
     \<lparr>self = \<lparr>templates_dir = [ascii ''templates''],
              output_dir = [ascii ''output''],
              env = scenario_faulty_env,
              template_files = [(ascii ''interfaces'', ascii ''ok.tmpl''),
                                (ascii ''vlans'', ascii ''missing.tmpl''),
                                (ascii ''system'', ascii ''broken.tmpl''),
                                (ascii ''bgp'', ascii ''syntax.tmpl''),
                                (ascii ''routing_filters'', ascii ''include.tmpl'')]\<rparr>,
      fs = [[ascii ''output''] \<mapsto> Dir],
      out = []\<rparr>"

text \<open>
  The state the constructor leaves when it is run with the scenario's template directory
  and the output directory \<open>output\<close> on an empty file system.
\<close>

definition constructed_state :: "unit state" where
  "constructed_state =
     \<lparr>self = \<lparr>templates_dir = [ascii ''templates''],
              output_dir = [ascii ''output''],
              env = scenario_env,
              template_files =
                [(ascii ''bgp'', ascii ''bgp.j2''),
                 (ascii ''routing_filters'', ascii ''routing_filters.j2''),
                 (ascii ''interfaces'', ascii ''interfaces.j2''),
                 (ascii ''vlans'', ascii ''vlans.j2''),
                 (ascii ''system'', ascii ''system.j2'')]\<rparr>,
      fs = [[ascii ''output''] \<mapsto> Dir],
      out = []\<rparr>"

text \<open>A command line that names an input file that is not there.\<close>

definition scenario_args :: args where
  "scenario_args =
     \<lparr>working_dir = [],
      input_file = [ascii ''intent.yaml''],
      device_name = ascii ''device'',
      templates_dir_arg = [ascii ''templates''],
      output_dir_arg = None,
      validate = False\<rparr>"

text \<open>
  A ServiceNow instance that knows the change record and accepts the update, and an
  environment with the credentials set and \<open>WORKFLOW_STATUS=success\<close>.
\<close>

definition scenario_web :: http where
  "scenario_web =
     \<lparr>requests_get = (\<lambda>_. Inr \<lparr>status_code = 200,
                                json_body = Inr (JDict [(ascii ''result'',
                                  JList [JDict [(ascii ''sys_id'', JStr (ascii ''abc123''))]])])\<rparr>),
      requests_put = (\<lambda>_. Inr \<lparr>status_code = 200, json_body = Inr JNull\<rparr>)\<rparr>"

definition scenario_getenv :: "pystr \<rightharpoonup> pystr" where
  "scenario_getenv =
     map_of [(ascii ''SERVICENOW_INSTANCE_URL'', ascii ''https://snow.example''),
             (ascii ''SERVICENOW_USERNAME'', ascii ''bot''),
             (ascii ''SERVICENOW_PASSWORD'', ascii ''secret''),
             (ascii ''GITHUB_HEAD_REF'', ascii ''CHG0012345''),
             (ascii ''WORKFLOW_STATUS'', ascii ''success'')]"

text \<open>The same environment with \<open>WORKFLOW_STATUS=failure\<close>.\<close>

definition scenario_getenv_failure :: "pystr \<rightharpoonup> pystr" where
  "scenario_getenv_failure = scenario_getenv(ascii ''WORKFLOW_STATUS'' \<mapsto> ascii ''failure'')"

section \<open>The validator\<close>

lemma strip_last_not_space: "py_strip s \<noteq> [] \<Longrightarrow> \<not> isspace (last (py_strip s))"
  unfolding py_strip_def
  by (metis hd_dropWhile last_rev rev_is_Nil_conv)

lemma endswith_space: "endswith s (ascii '' '') \<longleftrightarrow> s \<noteq> [] \<and> last s = 32"
  by (cases s rule: rev_cases) (auto simp: endswith_def ascii_def)

lemma stripped_no_trailing_space: "\<not> endswith (py_strip raw) (ascii '' '')"
proof
  assume "endswith (py_strip raw) (ascii '' '')"
  then have ne: "py_strip raw \<noteq> []" and l: "last (py_strip raw) = 32"
    by (simp_all add: endswith_space)
  from strip_last_not_space [OF ne] l show False
    by (simp add: isspace_def)
qed

text \<open>
  Since the trailing-whitespace check reads the line after it was stripped, no line is
  ever flagged.
\<close>

lemma validate_lines_keep: "validate_lines ls errs = errs"
  by (induction ls errs rule: validate_lines.induct)
     (simp_all add: Let_def stripped_no_trailing_space)

text \<open>
  C1. On the text \<open>"no issues here\nbad line \nclean\n"\<close> the claim expects
  \<open>pass = false\<close> and one finding, for line 2, which ends in a space. The code strips
  each line before it tests \<open>endswith(' ')\<close>, so the list of findings stays empty and
  \<open>validate_config\<close> returns \<open>True\<close>, printing that validation passed.
\<close>

theorem validate_config_trailing_space_scenario:
  "validation_errors_of (ascii ''no issues here\<newline>bad line \<newline>clean\<newline>'') = [] \<and>
   validate_config (ascii ''no issues here\<newline>bad line \<newline>clean\<newline>'') st =
     (True, print ValidationPassed (print Validating st))"
  by (simp add: validate_config_def validation_errors_of_def ascii_def py_strip_def
      isspace_def startswith_def endswith_def)

text \<open>
  C10. A line that is empty or whitespace-only, or whose stripped form begins with
  \<open>'!'\<close>, contributes no finding whatever else it holds: wherever it stands among the
  numbered lines of a text, the loop of \<open>validate_config\<close> ends with the same list of
  findings as it does without that line.
\<close>

theorem validate_skips_blank_and_comment_lines:
  "py_strip raw = [] \<or> startswith (py_strip raw) (ascii ''!'') \<Longrightarrow>
     validate_lines (before @ (i, raw) # rest) errs = validate_lines (before @ rest) errs"
proof (induction before arbitrary: errs)
  case Nil
  then show ?case by (auto simp: Let_def)
next
  case (Cons b before)
  obtain j l where b: "b = (j, l)" by (cases b)
  show ?case using Cons by (simp add: b Let_def)
qed

theorem validate_skips_blank_and_comment_lines_witness:
  "(py_strip (ascii '' ! bad line '') = [] \<or>
    startswith (py_strip (ascii '' ! bad line '')) (ascii ''!'')) \<and>
   validate_lines [(1, ascii ''a''), (2, ascii '' ! bad line ''), (3, ascii ''b'')] [] =
   validate_lines [(1, ascii ''a''), (3, ascii ''b'')] []"
  using validate_skips_blank_and_comment_lines
    [of "ascii '' ! bad line ''" "[(1, ascii ''a'')]" 2 "[(3, ascii ''b'')]" "[]"]
  by (simp add: ascii_def py_strip_def isspace_def startswith_def)

section \<open>The renderer and the composer\<close>

lemma try_not_found_bound:
  "render_template_try r name data = Inl TemplateNotFound \<Longrightarrow>
     \<exists>tf. map_of (template_files r) name = Some tf"
  by (auto simp: render_template_try_def split: option.splits)

lemma render_template_returns:
  "\<exists>t ds. render_template name data st = (Inr t, st\<lparr>out := out st @ ds\<rparr>) \<and> section_calls ds = []"
proof (cases "render_template_try (self st) name data")
  case (Inr t)
  then have "render_template name data st = (Inr t, st\<lparr>out := out st @ []\<rparr>)"
    by (simp add: render_template_def)
  then show ?thesis by (metis section_calls_def concat.simps(1) list.simps(8))
next
  case (Inl e)
  show ?thesis
  proof (cases "e = TemplateNotFound")
    case True
    with Inl obtain tf where "map_of (template_files (self st)) name = Some tf"
      using try_not_found_bound [of "self st" name data] by auto
    with Inl True have "render_template name data st = (Inr [], st\<lparr>out := out st @ [TemplateWarning tf]\<rparr>)"
      by (simp add: render_template_def print_def)
    moreover have "section_calls [TemplateWarning tf] = []" by (simp add: section_calls_def)
    ultimately show ?thesis by blast
  next
    case False
    with Inl have "render_template name data st = (Inr [], st\<lparr>out := out st @ [RenderError name e]\<rparr>)"
      by (cases e) (simp_all add: render_template_def print_def)
    moreover have "section_calls [RenderError name e] = []" by (simp add: section_calls_def)
    ultimately show ?thesis by blast
  qed
qed

lemma render_template_text_indep:
  "self st' = self st \<Longrightarrow> fst (render_template name data st') = fst (render_template name data st)"
  by (simp add: render_template_def print_def split: sum.splits exc.splits option.splits)

lemma section_calls_append: "section_calls (xs @ ys) = section_calls xs @ section_calls ys"
  by (simp add: section_calls_def)

lemma render_sections_spec:
  "map (\<lambda>n. fst (render_template n data st)) names = map Inr texts \<Longrightarrow>
   \<exists>ds. render_sections names data acc st =
          (Inr (acc @ filter (\<lambda>r. py_strip r \<noteq> []) texts), st\<lparr>out := out st @ ds\<rparr>) \<and>
        section_calls ds = names"
proof (induction names arbitrary: acc st texts)
  case Nil
  then have "render_sections [] data acc st = (Inr (acc @ filter (\<lambda>r. py_strip r \<noteq> []) texts), st\<lparr>out := out st @ []\<rparr>)"
    by simp
  moreover have "section_calls [] = ([]::pystr list)" by (simp add: section_calls_def)
  ultimately show ?case by blast
next
  case (Cons n names)
  from Cons.prems obtain t ts where texts: "texts = t # ts"
    and t: "fst (render_template n data st) = Inr t"
    and ts: "map (\<lambda>n. fst (render_template n data st)) names = map Inr ts"
    by (cases texts) auto
  let ?st0 = "print (RenderingSection n) st"
  obtain t' ds where r: "render_template n data ?st0 = (Inr t', ?st0\<lparr>out := out ?st0 @ ds\<rparr>)"
    and dsc: "section_calls ds = []"
    using render_template_returns [of n data ?st0] by auto
  have "fst (render_template n data ?st0) = fst (render_template n data st)"
    by (rule render_template_text_indep) (simp add: print_def)
  with r t have tt: "t' = t" by simp
  let ?st1 = "?st0\<lparr>out := out ?st0 @ ds\<rparr>"
  have self1: "self ?st1 = self st" by (simp add: print_def)
  have "map (\<lambda>n. fst (render_template n data ?st1)) names = map Inr ts"
    using ts render_template_text_indep [OF self1] by simp
  from Cons.IH [OF this, of "if py_strip t \<noteq> [] then acc @ [t] else acc"]
  obtain ds' where rs: "render_sections names data (if py_strip t \<noteq> [] then acc @ [t] else acc) ?st1 =
      (Inr ((if py_strip t \<noteq> [] then acc @ [t] else acc) @ filter (\<lambda>r. py_strip r \<noteq> []) ts), ?st1\<lparr>out := out ?st1 @ ds'\<rparr>)"
    and dsc': "section_calls ds' = names" by blast
  have "render_sections (n # names) data acc st =
      (Inr (acc @ filter (\<lambda>r. py_strip r \<noteq> []) texts), st\<lparr>out := out st @ (RenderingSection n # ds @ ds')\<rparr>)"
    using r rs by (simp add: tt texts print_def)
  moreover have "section_calls (RenderingSection n # ds @ ds') = n # names"
    using dsc dsc' section_calls_append [of "[RenderingSection n]" "ds @ ds'"] 
    by (simp add: section_calls_append) (simp add: section_calls_def)
  ultimately show ?case by blast
qed

lemma render_template_texts:
  "\<exists>texts. map (\<lambda>n. fst (render_template n data st)) names = map Inr texts"
proof (induction names)
  case Nil
  show ?case by simp
next
  case (Cons n names)
  then obtain texts where "map (\<lambda>n. fst (render_template n data st)) names = map Inr texts" by blast
  moreover obtain t where "fst (render_template n data st) = Inr t"
    using render_template_returns [of n data st] by auto
  ultimately have "map (\<lambda>n. fst (render_template n data st)) (n # names) = map Inr (t # texts)"
    by simp
  then show ?case by blast
qed

lemma complete_config_spec:
  "map (\<lambda>n. fst (render_template n data st)) (map fst (template_files (self st))) = map Inr texts \<Longrightarrow>
   \<exists>ds. complete_config data st =
          (Inr (py_join (ascii ''\<newline>'') (filter (\<lambda>r. py_strip r \<noteq> []) texts)),
           st\<lparr>out := out st @ RenderingTemplates # ds\<rparr>) \<and>
        section_calls ds = map fst (template_files (self st))"
proof -
  assume a: "map (\<lambda>n. fst (render_template n data st)) (map fst (template_files (self st))) = map Inr texts"
  let ?st0 = "print RenderingTemplates st"
  have self0: "self ?st0 = self st" by (simp add: print_def)
  have "map (\<lambda>n. fst (render_template n data ?st0)) (map fst (template_files (self st))) = map Inr texts"
    using a render_template_text_indep [OF self0] by simp
  from render_sections_spec [OF this, of "[]"]
  obtain ds where rs: "render_sections (map fst (template_files (self st))) data [] ?st0 =
      (Inr (filter (\<lambda>r. py_strip r \<noteq> []) texts), ?st0\<lparr>out := out ?st0 @ ds\<rparr>)"
    and dsc: "section_calls ds = map fst (template_files (self st))" by auto
  have "complete_config data st =
          (Inr (py_join (ascii ''\<newline>'') (filter (\<lambda>r. py_strip r \<noteq> []) texts)),
           st\<lparr>out := out st @ RenderingTemplates # ds\<rparr>)"
    using rs by (simp add: complete_config_def self0) (simp add: print_def)
  with dsc show ?thesis by blast
qed

lemma complete_config_frame:
  "\<exists>config ds. complete_config data st = (Inr config, st\<lparr>out := out st @ RenderingTemplates # ds\<rparr>) \<and>
     section_calls ds = map fst (template_files (self st))"
proof -
  obtain texts where t: "map (\<lambda>name. fst (render_template name data st))
      (map fst (template_files (self st))) = map Inr texts"
    using render_template_texts [of data st "map fst (template_files (self st))"] by auto
  from complete_config_spec [OF t] show ?thesis by blast
qed

lemma scenario_lookup:
  "map_of (template_files (self scenario_state)) (ascii ''vlans'') = Some (ascii ''missing.tmpl'')"
  "map_of (template_files (self scenario_state)) (ascii ''interfaces'') = Some (ascii ''ok.tmpl'')"
  "map_of (template_files (self scenario_state)) (ascii ''system'') = None"
  by (simp_all add: scenario_state_def ascii_def)

lemma scenario_env_values:
  "scenario_env (ascii ''missing.tmpl'') = Inl TemplateNotFound"
  "scenario_env (ascii ''broken.tmpl'') = Inr (\<lambda>_. Inl TypeError)"
  "scenario_env (ascii ''ok.tmpl'') = Inr (\<lambda>_. Inr (ascii ''interface Eth1''))"
  by (simp_all add: scenario_env_def ascii_def)

text \<open>
  C2. For every input document and every renderer, each registry entry, taken in the
  registry's order, renders to a text, and the composed configuration is these texts,
  untrimmed, without those that are empty after trimming, joined by one newline
  character. Nothing stands in for an omitted section, and the order of the others is
  the registry's. \<open>render_all_templates\<close> returns this text unless the write fails.
\<close>

theorem complete_config_joins_nonempty_sections_in_order:
  "\<exists>texts config.
     map (\<lambda>name. fst (render_template name data st)) (map fst (template_files (self st))) =
       map Inr texts \<and>
     config = py_join (ascii ''\<newline>'') (filter (\<lambda>r. py_strip r \<noteq> []) texts) \<and>
     fst (complete_config data st) = Inr config \<and>
     (fst (render_all_templates data device output_file st) = Inr config \<or>
      (\<exists>e. fst (render_all_templates data device output_file st) = Inl e))"
proof -
  obtain texts where t: "map (\<lambda>name. fst (render_template name data st))
      (map fst (template_files (self st))) = map Inr texts"
    using render_template_texts [of data st "map fst (template_files (self st))"] by auto
  let ?config = "py_join (ascii ''\<newline>'') (filter (\<lambda>r. py_strip r \<noteq> []) texts)"
  from complete_config_spec [OF t] obtain ds where
    cc: "complete_config data st = (Inr ?config, st\<lparr>out := out st @ RenderingTemplates # ds\<rparr>)"
    by auto
  have "fst (render_all_templates data device output_file st) = Inr ?config \<or>
      (\<exists>e. fst (render_all_templates data device output_file st) = Inl e)"
    using cc by (simp add: render_all_templates_def Let_def split: sum.splits)
  with t cc show ?thesis by auto
qed

section \<open>Paths and the file system\<close>



lemma py_split_no_sep: "sep \<notin> set s \<Longrightarrow> py_split sep s = [s]"
  by (induction s) auto

lemma startswith_char_mem: "startswith s [c] \<Longrightarrow> c \<in> set s"
  by (cases s) (auto simp: startswith_def)

lemma path_join_file_name:
  assumes "47 \<notin> set device"
  shows "path_join base (device @ ascii ''_config.txt'') = base @ [device @ ascii ''_config.txt'']"
proof -
  let ?name = "device @ ascii ''_config.txt''"
  have no: "47 \<notin> set ?name" using assms by (simp add: ascii_def)
  have "ascii ''/'' = [47]" by (simp add: ascii_def)
  with no have "\<not> startswith ?name (ascii ''/'')"
    using startswith_char_mem [of ?name 47] by auto
  moreover have "?name \<noteq> []" by (simp add: ascii_def)
  moreover have "length ?name \<noteq> length (ascii ''.'')" by (simp add: ascii_def)
  then have "?name \<noteq> ascii ''.''" by metis
  ultimately show ?thesis using py_split_no_sep [OF no]
    by (simp add: path_join_def path_components_def)
qed

lemma file_name_not_dotdot: "device @ ascii ''_config.txt'' \<noteq> ascii ''..''"
proof -
  have "length (device @ ascii ''_config.txt'') \<noteq> length (ascii ''..'')" by (simp add: ascii_def)
  then show ?thesis by metis
qed

lemma mkdir_exist_ok_files:
  "mkdir_exist_ok p f = Inr f' \<Longrightarrow> (f' q = Some (File c)) = (f q = Some (File c))"
  by (auto simp: mkdir_exist_ok_def node_at_def split: sum.splits option.splits node.splits if_splits)




lemma load_yaml_input_fs: "fs (snd (load_yaml_input yaml p st)) = fs st"
  by (simp add: load_yaml_input_def print_def split: sum.splits exc.splits)

section \<open>Composition and storage\<close>

lemma output_not_dotdot: "ascii ''output'' \<noteq> ascii ''..''"
  by (simp add: ascii_def)


text \<open>
  C3 as stated. The claim says that composing writes nothing to storage. The operation
  that composes, \<open>render_all_templates\<close>, goes on to write the composed text to the
  output file: in the scenario it leaves a file system that differs from the one it
  started on.
\<close>

theorem render_all_templates_writes_storage_counterexample:
  "fs (snd (render_all_templates () (ascii ''device'') None scenario_state)) \<noteq> fs scenario_state"
proof
  let ?dest = "[ascii ''output'', ascii ''device'' @ ascii ''_config.txt'']"
  assume eq: "fs (snd (render_all_templates () (ascii ''device'') None scenario_state)) =
    fs scenario_state"
  obtain config ds where
    cc: "complete_config () scenario_state =
           (Inr config, scenario_state\<lparr>out := out scenario_state @ RenderingTemplates # ds\<rparr>)"
    using complete_config_frame [of "()" scenario_state] by auto
  have none: "fs scenario_state ?dest = None"
    by (simp add: scenario_state_def)
  have fs0: "fs scenario_state = [[ascii ''output''] \<mapsto> Dir]"
    and od: "output_dir (self scenario_state) = [ascii ''output'']"
    by (simp_all add: scenario_state_def)
  have "47 \<notin> set (ascii ''device'')" by (simp add: ascii_def)
  from path_join_file_name [OF this]
  have pj: "path_join [ascii ''output''] (ascii ''device'' @ ascii ''_config.txt'') = ?dest"
    by simp
  note nd = output_not_dotdot
  have "fs (snd (render_all_templates () (ascii ''device'') None scenario_state)) ?dest =
      Some (File config)"
    using nd file_name_not_dotdot [of "ascii ''device''"]
    by (simp add: render_all_templates_def cc Let_def open_write_def node_at_def
        print_def fs0 od pj)
  with eq none show False by simp
qed

text \<open>
  C3 as amended. The composition proper, up to the value of \<open>complete_config\<close>,
  announces and makes one \<open>render_template\<close> call per registry entry, in registry
  order, and leaves the renderer object and the file system as they were: it only
  prints. \<open>render_all_templates\<close> then changes storage in at most one place, the
  place its destination path names, which receives the composed text.
\<close>

theorem composition_frame_then_single_write:
  "\<exists>config ds.
     complete_config data st = (Inr config, st\<lparr>out := out st @ RenderingTemplates # ds\<rparr>) \<and>
     section_calls ds = map fst (template_files (self st)) \<and>
     fs (snd (complete_config data st)) = fs st \<and>
     self (snd (complete_config data st)) = self st \<and>
     (fs (snd (render_all_templates data device output_file st)) = fs st \<or>
      (\<exists>place.
         locate (fs st) []
           (case output_file of
              None \<Rightarrow> path_join (output_dir (self st)) (device @ ascii ''_config.txt'')
            | Some p \<Rightarrow> p) = Inr place \<and>
         fs (snd (render_all_templates data device output_file st)) =
           (fs st)(place \<mapsto> File config)))"
proof -
  obtain config ds where
    cc: "complete_config data st = (Inr config, st\<lparr>out := out st @ RenderingTemplates # ds\<rparr>)"
    and sc: "section_calls ds = map fst (template_files (self st))"
    using complete_config_frame [of data st] by auto
  have "fs (snd (render_all_templates data device output_file st)) = fs st \<or>
      (\<exists>place.
         locate (fs st) []
           (case output_file of
              None \<Rightarrow> path_join (output_dir (self st)) (device @ ascii ''_config.txt'')
            | Some p \<Rightarrow> p) = Inr place \<and>
         fs (snd (render_all_templates data device output_file st)) =
           (fs st)(place \<mapsto> File config))"
    by (auto simp: render_all_templates_def cc Let_def open_write_def print_def
        split: sum.splits option.splits node.splits)
  with cc sc show ?thesis by auto
qed

text \<open>
  C4. With the registry \<open>[("interfaces", "ok.tmpl"), ("vlans", "missing.tmpl")]\<close>,
  where \<open>ok.tmpl\<close> renders \<open>"interface Eth1"\<close> for any input and \<open>missing.tmpl\<close>
  cannot be resolved, the composed configuration is exactly \<open>"interface Eth1"\<close> for
  every input document: the \<open>vlans\<close> entry contributes the empty text and the
  \<open>interfaces\<close> section is unchanged.
\<close>

theorem complete_config_omits_unresolvable_section:
  assumes reg: "template_files (self st) =
            [(ascii ''interfaces'', ascii ''ok.tmpl''), (ascii ''vlans'', ascii ''missing.tmpl'')]"
    and ok: "env (self st) (ascii ''ok.tmpl'') = Inr ok"
    and ok_text: "\<forall>document. ok document = Inr (ascii ''interface Eth1'')"
    and missing: "env (self st) (ascii ''missing.tmpl'') = Inl TemplateNotFound"
  shows "fst (complete_config data st) = Inr (ascii ''interface Eth1'') \<and>
         fst (render_template (ascii ''interfaces'') data st) = Inr (ascii ''interface Eth1'') \<and>
         fst (render_template (ascii ''vlans'') data st) = Inr []"
proof -
  have neq: "ascii ''interfaces'' \<noteq> ascii ''vlans''" by (simp add: ascii_def)
  have i: "fst (render_template (ascii ''interfaces'') data st) = Inr (ascii ''interface Eth1'')"
    using ok ok_text by (simp add: render_template_def render_template_try_def reg)
  have v: "fst (render_template (ascii ''vlans'') data st) = Inr []"
    using missing neq by (simp add: render_template_def render_template_try_def reg)
  have "map (\<lambda>n. fst (render_template n data st)) (map fst (template_files (self st))) =
          map Inr [ascii ''interface Eth1'', []]"
    using i v by (simp add: reg)
  from complete_config_spec [OF this] obtain ds where
    "complete_config data st =
       (Inr (py_join (ascii ''\<newline>'')
               (filter (\<lambda>r. py_strip r \<noteq> []) [ascii ''interface Eth1'', []])),
        st\<lparr>out := out st @ RenderingTemplates # ds\<rparr>)" by auto
  moreover have "py_strip (ascii ''interface Eth1'') \<noteq> []"
    by (simp add: ascii_def py_strip_def isspace_def)
  moreover have "py_strip [] = []" by (simp add: py_strip_def)
  ultimately have "fst (complete_config data st) = Inr (ascii ''interface Eth1'')" by simp
  with i v show ?thesis by simp
qed

theorem complete_config_omits_unresolvable_section_witness:
  "template_files (self scenario_state) =
     [(ascii ''interfaces'', ascii ''ok.tmpl''), (ascii ''vlans'', ascii ''missing.tmpl'')] \<and>
   env (self scenario_state) (ascii ''ok.tmpl'') = Inr (\<lambda>_. Inr (ascii ''interface Eth1'')) \<and>
   env (self scenario_state) (ascii ''missing.tmpl'') = Inl TemplateNotFound \<and>
   fst (complete_config () scenario_state) = Inr (ascii ''interface Eth1'')"
proof -
  have reg: "template_files (self scenario_state) =
     [(ascii ''interfaces'', ascii ''ok.tmpl''), (ascii ''vlans'', ascii ''missing.tmpl'')]"
    by (simp add: scenario_state_def)
  have env: "env (self scenario_state) = scenario_env" by (simp add: scenario_state_def)
  have ok: "env (self scenario_state) (ascii ''ok.tmpl'') = Inr (\<lambda>_. Inr (ascii ''interface Eth1''))"
    by (simp add: env scenario_env_values)
  have ok_text: "\<forall>document::unit. (\<lambda>_. Inr (ascii ''interface Eth1'') :: exc + pystr) document = Inr (ascii ''interface Eth1'')"
    by simp
  have missing: "env (self scenario_state) (ascii ''missing.tmpl'') = Inl TemplateNotFound"
    by (simp add: env scenario_env_values)
  from complete_config_omits_unresolvable_section [OF reg ok ok_text missing, of "()"] reg ok missing show ?thesis by simp
qed

lemma init_constructed:
  "ConfigRenderer_init (\<lambda>_. scenario_env) [ascii ''templates''] [ascii ''output''] Map.empty =
     Inr constructed_state"
  using output_not_dotdot
  by (simp add: ConfigRenderer_init_def mkdir_exist_ok_def node_at_def
      constructed_state_def)

text \<open>
  C9. The constructor fixes the registry to five entries, in the order \<open>bgp\<close>,
  \<open>routing_filters\<close>, \<open>interfaces\<close>, \<open>vlans\<close>, \<open>system\<close>, each mapped to its
  \<open>.j2\<close> template; the names are distinct; no method changes the renderer object, so
  the registry stays as constructed; and the composition announces exactly these five
  sections in this order.
\<close>

theorem registry_fixed_five_entries:
  assumes init: "ConfigRenderer_init jinja tdir odir fs0 = Inr st0"
  shows "template_files (self st0) =
           [(ascii ''bgp'', ascii ''bgp.j2''),
            (ascii ''routing_filters'', ascii ''routing_filters.j2''),
            (ascii ''interfaces'', ascii ''interfaces.j2''),
            (ascii ''vlans'', ascii ''vlans.j2''),
            (ascii ''system'', ascii ''system.j2'')] \<and>
         distinct (map fst (template_files (self st0))) \<and>
         (\<forall>st. self st = self st0 \<longrightarrow>
            self (snd (load_yaml_input yaml source st)) = self st0 \<and>
            self (snd (render_template template_name data st)) = self st0 \<and>
            self (snd (render_all_templates data device output_file st)) = self st0 \<and>
            self (snd (validate_config config_text st)) = self st0 \<and>
            (\<exists>ds. out (snd (complete_config data st)) = out st @ RenderingTemplates # ds \<and>
                  section_calls ds =
                    [ascii ''bgp'', ascii ''routing_filters'', ascii ''interfaces'',
                     ascii ''vlans'', ascii ''system'']))"
proof -
  have reg: "template_files (self st0) =
           [(ascii ''bgp'', ascii ''bgp.j2''),
            (ascii ''routing_filters'', ascii ''routing_filters.j2''),
            (ascii ''interfaces'', ascii ''interfaces.j2''),
            (ascii ''vlans'', ascii ''vlans.j2''),
            (ascii ''system'', ascii ''system.j2'')]"
    using init by (auto simp: ConfigRenderer_init_def split: sum.splits)
  have dist: "distinct (map fst (template_files (self st0)))"
    by (simp add: reg ascii_def)
  have frame: "self (snd (load_yaml_input yaml source st)) = self st \<and>
            self (snd (render_template template_name data st)) = self st \<and>
            self (snd (render_all_templates data device output_file st)) = self st \<and>
            self (snd (validate_config config_text st)) = self st \<and>
            (\<exists>ds. out (snd (complete_config data st)) = out st @ RenderingTemplates # ds \<and>
                  section_calls ds = map fst (template_files (self st)))" for st :: "'a state"
  proof (intro conjI)
    show "self (snd (load_yaml_input yaml source st)) = self st"
      by (simp add: load_yaml_input_def print_def split: sum.splits exc.splits)
    show "self (snd (render_template template_name data st)) = self st"
      using render_template_returns [of template_name data st] by auto
    obtain config ds where
      cc: "complete_config data st = (Inr config, st\<lparr>out := out st @ RenderingTemplates # ds\<rparr>)"
      and sc: "section_calls ds = map fst (template_files (self st))"
      using complete_config_frame [of data st] by auto
    show "self (snd (render_all_templates data device output_file st)) = self st"
      by (simp add: render_all_templates_def cc Let_def print_def split: sum.splits)
    show "self (snd (validate_config config_text st)) = self st"
      by (simp add: validate_config_def Let_def print_def validate_lines_keep validation_errors_of_def)
    show "\<exists>ds. out (snd (complete_config data st)) = out st @ RenderingTemplates # ds \<and>
                  section_calls ds = map fst (template_files (self st))"
      using cc sc by auto
  qed
  have "\<forall>st. self st = self st0 \<longrightarrow>
            self (snd (load_yaml_input yaml source st)) = self st0 \<and>
            self (snd (render_template template_name data st)) = self st0 \<and>
            self (snd (render_all_templates data device output_file st)) = self st0 \<and>
            self (snd (validate_config config_text st)) = self st0 \<and>
            (\<exists>ds. out (snd (complete_config data st)) = out st @ RenderingTemplates # ds \<and>
                  section_calls ds =
                    [ascii ''bgp'', ascii ''routing_filters'', ascii ''interfaces'',
                     ascii ''vlans'', ascii ''system''])"
  proof (intro allI impI)
    fix st :: "'a state"
    assume s: "self st = self st0"
    have "map fst (template_files (self st)) =
        [ascii ''bgp'', ascii ''routing_filters'', ascii ''interfaces'',
         ascii ''vlans'', ascii ''system'']"
      by (simp add: s reg)
    with frame [of st] s show "self (snd (load_yaml_input yaml source st)) = self st0 \<and>
            self (snd (render_template template_name data st)) = self st0 \<and>
            self (snd (render_all_templates data device output_file st)) = self st0 \<and>
            self (snd (validate_config config_text st)) = self st0 \<and>
            (\<exists>ds. out (snd (complete_config data st)) = out st @ RenderingTemplates # ds \<and>
                  section_calls ds =
                    [ascii ''bgp'', ascii ''routing_filters'', ascii ''interfaces'',
                     ascii ''vlans'', ascii ''system''])"
      by simp
  qed
  with reg dist show ?thesis by blast
qed

theorem registry_fixed_five_entries_witness:
  "ConfigRenderer_init (\<lambda>_. scenario_env) [ascii ''templates''] [ascii ''output''] Map.empty =
     Inr constructed_state \<and>
   self constructed_state = self constructed_state \<and>
   template_files (self constructed_state) =
     [(ascii ''bgp'', ascii ''bgp.j2''),
      (ascii ''routing_filters'', ascii ''routing_filters.j2''),
      (ascii ''interfaces'', ascii ''interfaces.j2''),
      (ascii ''vlans'', ascii ''vlans.j2''),
      (ascii ''system'', ascii ''system.j2'')] \<and>
   (\<exists>ds. out (snd (complete_config () constructed_state)) =
           out constructed_state @ RenderingTemplates # ds \<and>
         section_calls ds =
           [ascii ''bgp'', ascii ''routing_filters'', ascii ''interfaces'',
            ascii ''vlans'', ascii ''system''])"
proof -
  note t = registry_fixed_five_entries
    [OF init_constructed, of "\<lambda>_. Inl YAMLError" "[]" "[]" "()" "[]" None "[]"]
  from t have "template_files (self constructed_state) =
     [(ascii ''bgp'', ascii ''bgp.j2''),
      (ascii ''routing_filters'', ascii ''routing_filters.j2''),
      (ascii ''interfaces'', ascii ''interfaces.j2''),
      (ascii ''vlans'', ascii ''vlans.j2''),
      (ascii ''system'', ascii ''system.j2'')]" by blast
  moreover from t have "\<exists>ds. out (snd (complete_config () constructed_state)) =
           out constructed_state @ RenderingTemplates # ds \<and>
         section_calls ds =
           [ascii ''bgp'', ascii ''routing_filters'', ascii ''interfaces'',
            ascii ''vlans'', ascii ''system'']" by blast
  ultimately show ?thesis using init_constructed by simp
qed

section \<open>Isolation of a section's failure\<close>

text \<open>
  C5. For every section name and input document \<open>render_template\<close> returns a string
  and raises nothing. When the template identifier of the section cannot be resolved, it
  prints the warning and returns the empty text. When applying the template, or
  compiling it, raises any other error, it prints the error and returns the empty text;
  so it does for a name that is not in the registry. A template that raises
  \<open>TemplateNotFound\<close> while it is applied is treated like an unresolved one. When the
  template renders, its text is returned as it is and nothing is printed.
\<close>

theorem render_template_never_raises:
  "(\<exists>text. fst (render_template template_name data st) = Inr text) \<and>
   (\<forall>template_file.
      map_of (template_files (self st)) template_name = Some template_file \<and>
      env (self st) template_file = Inl TemplateNotFound \<longrightarrow>
      render_template template_name data st =
        (Inr [], print (TemplateWarning template_file) st)) \<and>
   (\<forall>template_file template e.
      map_of (template_files (self st)) template_name = Some template_file \<and>
      env (self st) template_file = Inr template \<and>
      template data = Inl e \<and> e \<noteq> TemplateNotFound \<longrightarrow>
      render_template template_name data st =
        (Inr [], print (RenderError template_name e) st)) \<and>
   (\<forall>template_file template.
      map_of (template_files (self st)) template_name = Some template_file \<and>
      env (self st) template_file = Inr template \<and>
      template data = Inl TemplateNotFound \<longrightarrow>
      render_template template_name data st =
        (Inr [], print (TemplateWarning template_file) st)) \<and>
   (\<forall>template_file e.
      map_of (template_files (self st)) template_name = Some template_file \<and>
      env (self st) template_file = Inl e \<and> e \<noteq> TemplateNotFound \<longrightarrow>
      render_template template_name data st =
        (Inr [], print (RenderError template_name e) st)) \<and>
   (map_of (template_files (self st)) template_name = None \<longrightarrow>
      render_template template_name data st =
        (Inr [], print (RenderError template_name KeyError) st)) \<and>
   (\<forall>template_file template rendered.
      map_of (template_files (self st)) template_name = Some template_file \<and>
      env (self st) template_file = Inr template \<and>
      template data = Inr rendered \<longrightarrow>
      render_template template_name data st = (Inr rendered, st))"
proof (intro conjI allI impI)
  show "\<exists>text. fst (render_template template_name data st) = Inr text"
    using render_template_returns [of template_name data st] by auto
next
  fix template_file
  assume "map_of (template_files (self st)) template_name = Some template_file \<and>
      env (self st) template_file = Inl TemplateNotFound"
  then show "render_template template_name data st =
        (Inr [], print (TemplateWarning template_file) st)"
    by (simp add: render_template_def render_template_try_def)
next
  fix template_file template e
  assume "map_of (template_files (self st)) template_name = Some template_file \<and>
      env (self st) template_file = Inr template \<and>
      template data = Inl e \<and> e \<noteq> TemplateNotFound"
  then show "render_template template_name data st =
        (Inr [], print (RenderError template_name e) st)"
    by (cases e) (simp_all add: render_template_def render_template_try_def)
next
  fix template_file template
  assume "map_of (template_files (self st)) template_name = Some template_file \<and>
      env (self st) template_file = Inr template \<and>
      template data = Inl TemplateNotFound"
  then show "render_template template_name data st =
        (Inr [], print (TemplateWarning template_file) st)"
    by (simp add: render_template_def render_template_try_def)
next
  fix template_file e
  assume "map_of (template_files (self st)) template_name = Some template_file \<and>
      env (self st) template_file = Inl e \<and> e \<noteq> TemplateNotFound"
  then show "render_template template_name data st =
        (Inr [], print (RenderError template_name e) st)"
    by (cases e) (simp_all add: render_template_def render_template_try_def)
next
  assume "map_of (template_files (self st)) template_name = None"
  then show "render_template template_name data st =
        (Inr [], print (RenderError template_name KeyError) st)"
    by (simp add: render_template_def render_template_try_def)
next
  fix template_file template rendered
  assume "map_of (template_files (self st)) template_name = Some template_file \<and>
      env (self st) template_file = Inr template \<and>
      template data = Inr rendered"
  then show "render_template template_name data st = (Inr rendered, st)"
    by (simp add: render_template_def render_template_try_def)
qed

lemma faulty_lookup:
  "map_of (template_files (self scenario_faulty_state)) (ascii ''interfaces'') = Some (ascii ''ok.tmpl'')"
  "map_of (template_files (self scenario_faulty_state)) (ascii ''vlans'') = Some (ascii ''missing.tmpl'')"
  "map_of (template_files (self scenario_faulty_state)) (ascii ''system'') = Some (ascii ''broken.tmpl'')"
  "map_of (template_files (self scenario_faulty_state)) (ascii ''bgp'') = Some (ascii ''syntax.tmpl'')"
  "map_of (template_files (self scenario_faulty_state)) (ascii ''routing_filters'') = Some (ascii ''include.tmpl'')"
  "map_of (template_files (self scenario_faulty_state)) (ascii ''ntp'') = None"
  by (simp_all add: scenario_faulty_state_def ascii_def)

lemma faulty_env_values:
  "env (self scenario_faulty_state) (ascii ''ok.tmpl'') = Inr (\<lambda>_. Inr (ascii ''interface Eth1''))"
  "env (self scenario_faulty_state) (ascii ''missing.tmpl'') = Inl TemplateNotFound"
  "env (self scenario_faulty_state) (ascii ''broken.tmpl'') = Inr (\<lambda>_. Inl TypeError)"
  "env (self scenario_faulty_state) (ascii ''syntax.tmpl'') = Inl OtherError"
  "env (self scenario_faulty_state) (ascii ''include.tmpl'') = Inr (\<lambda>_. Inl TemplateNotFound)"
  by (simp_all add: scenario_faulty_state_def scenario_faulty_env_def ascii_def)

theorem render_template_never_raises_witness:
  "render_template (ascii ''vlans'') () scenario_faulty_state =
     (Inr [], print (TemplateWarning (ascii ''missing.tmpl'')) scenario_faulty_state) \<and>
   render_template (ascii ''system'') () scenario_faulty_state =
     (Inr [], print (RenderError (ascii ''system'') TypeError) scenario_faulty_state) \<and>
   render_template (ascii ''routing_filters'') () scenario_faulty_state =
     (Inr [], print (TemplateWarning (ascii ''include.tmpl'')) scenario_faulty_state) \<and>
   render_template (ascii ''bgp'') () scenario_faulty_state =
     (Inr [], print (RenderError (ascii ''bgp'') OtherError) scenario_faulty_state) \<and>
   render_template (ascii ''ntp'') () scenario_faulty_state =
     (Inr [], print (RenderError (ascii ''ntp'') KeyError) scenario_faulty_state) \<and>
   render_template (ascii ''interfaces'') () scenario_faulty_state =
     (Inr (ascii ''interface Eth1''), scenario_faulty_state)"
proof (intro conjI)
  show "render_template (ascii ''vlans'') () scenario_faulty_state =
     (Inr [], print (TemplateWarning (ascii ''missing.tmpl'')) scenario_faulty_state)"
    using render_template_never_raises [of "ascii ''vlans''" "()" scenario_faulty_state]
      faulty_lookup(2) faulty_env_values(2) by blast
  have "(\<lambda>_::unit. Inl TypeError :: exc + pystr) () = Inl TypeError \<and> TypeError \<noteq> TemplateNotFound"
    by simp
  then show "render_template (ascii ''system'') () scenario_faulty_state =
     (Inr [], print (RenderError (ascii ''system'') TypeError) scenario_faulty_state)"
    using render_template_never_raises [of "ascii ''system''" "()" scenario_faulty_state]
      faulty_lookup(3) faulty_env_values(3) by blast
  have "(\<lambda>_::unit. Inl TemplateNotFound :: exc + pystr) () = Inl TemplateNotFound"
    by simp
  then show "render_template (ascii ''routing_filters'') () scenario_faulty_state =
     (Inr [], print (TemplateWarning (ascii ''include.tmpl'')) scenario_faulty_state)"
    using render_template_never_raises [of "ascii ''routing_filters''" "()" scenario_faulty_state]
      faulty_lookup(5) faulty_env_values(5) by blast
  have "OtherError \<noteq> TemplateNotFound" by simp
  then show "render_template (ascii ''bgp'') () scenario_faulty_state =
     (Inr [], print (RenderError (ascii ''bgp'') OtherError) scenario_faulty_state)"
    using render_template_never_raises [of "ascii ''bgp''" "()" scenario_faulty_state]
      faulty_lookup(4) faulty_env_values(4) by blast
  show "render_template (ascii ''ntp'') () scenario_faulty_state =
     (Inr [], print (RenderError (ascii ''ntp'') KeyError) scenario_faulty_state)"
    using render_template_never_raises [of "ascii ''ntp''" "()" scenario_faulty_state]
      faulty_lookup(6) by blast
  have "(\<lambda>_::unit. Inr (ascii ''interface Eth1'') :: exc + pystr) () = Inr (ascii ''interface Eth1'')"
    by simp
  then show "render_template (ascii ''interfaces'') () scenario_faulty_state =
     (Inr (ascii ''interface Eth1''), scenario_faulty_state)"
    using render_template_never_raises [of "ascii ''interfaces''" "()" scenario_faulty_state]
      faulty_lookup(1) faulty_env_values(1) by blast
qed

section \<open>Loading the input\<close>

lemma load_yaml_input_not_found:
  "open_read p (fs st) = Inl FileNotFoundError \<Longrightarrow>
     load_yaml_input yaml p st = (Inl (SystemExit 1), print (InputNotFound p) st)"
  by (simp add: load_yaml_input_def)

lemma load_yaml_input_not_a_directory:
  "open_read p (fs st) = Inl NotADirectoryError \<Longrightarrow>
     load_yaml_input yaml p st = (Inl (Uncaught NotADirectoryError), st)"
  by (simp add: load_yaml_input_def)

lemma init_files:
  "ConfigRenderer_init jinja tdir odir f = Inr st0 \<Longrightarrow>
     (fs st0 q = Some (File c)) = (f q = Some (File c))"
proof -
  assume "ConfigRenderer_init jinja tdir odir f = Inr st0"
  then have "mkdir_exist_ok odir f = Inr (fs st0)"
    by (auto simp: ConfigRenderer_init_def split: sum.splits)
  then show ?thesis by (rule mkdir_exist_ok_files)
qed

lemma init_out: "ConfigRenderer_init jinja tdir odir f = Inr st0 \<Longrightarrow> out st0 = []"
  by (auto simp: ConfigRenderer_init_def split: sum.splits)

text \<open>
  C6 as stated. The claim says that for every input path that does not exist the loader
  fails with a not-found error. Two paths that do not exist when the run starts end
  otherwise. Below a regular file (\<open>f.txt/x.yaml\<close>), \<open>open\<close> raises
  \<open>NotADirectoryError\<close>, which \<open>load_yaml_input\<close> does not catch: the run ends with
  that exception and prints no not-found line. And \<open>output\<close>, absent before the run,
  is created as a directory by the constructor, so that \<open>open\<close> raises
  \<open>IsADirectoryError\<close>, uncaught as well.
\<close>

theorem missing_input_below_file_counterexample:
  "open_read [ascii ''f.txt'', ascii ''x.yaml''] [[ascii ''f.txt''] \<mapsto> File []] =
     Inl NotADirectoryError \<and>
   render_config_main (\<lambda>_. scenario_env) (\<lambda>_. Inr ())
     (scenario_args\<lparr>input_file := [ascii ''f.txt'', ascii ''x.yaml'']\<rparr>)
     [[ascii ''f.txt''] \<mapsto> File []] =
     (Inl (Uncaught NotADirectoryError),
      [[ascii ''f.txt''] \<mapsto> File [], [ascii ''output''] \<mapsto> Dir], []) \<and>
   open_read [ascii ''output''] Map.empty = Inl FileNotFoundError \<and>
   render_config_main (\<lambda>_. scenario_env) (\<lambda>_. Inr ())
     (scenario_args\<lparr>input_file := [ascii ''output'']\<rparr>) Map.empty =
     (Inl (Uncaught IsADirectoryError), [[ascii ''output''] \<mapsto> Dir], [])"
proof (intro conjI)
  let ?f = "[[ascii ''f.txt''] \<mapsto> File []]"
  have ne: "ascii ''f.txt'' \<noteq> ascii ''..''" "ascii ''output'' \<noteq> ascii ''..''"
    "ascii ''output'' \<noteq> ascii ''f.txt''"
    by (simp_all add: ascii_def)
  show r1: "open_read [ascii ''f.txt'', ascii ''x.yaml''] ?f = Inl NotADirectoryError"
    using ne by (simp add: open_read_def node_at_def)
  show r2: "open_read [ascii ''output''] Map.empty = Inl FileNotFoundError"
    using ne by (simp add: open_read_def node_at_def)
  have mk: "mkdir_exist_ok [ascii ''output''] ?f = Inr (?f([ascii ''output''] \<mapsto> Dir))"
    using ne by (simp add: mkdir_exist_ok_def node_at_def)
  have i1: "ConfigRenderer_init (\<lambda>_. scenario_env) [ascii ''templates''] [ascii ''output''] ?f =
      Inr (constructed_state\<lparr>fs := ?f([ascii ''output''] \<mapsto> Dir)\<rparr>)"
    unfolding ConfigRenderer_init_def mk by (simp add: constructed_state_def)
  have o1: "open_read [ascii ''f.txt'', ascii ''x.yaml''] (?f([ascii ''output''] \<mapsto> Dir)) =
      Inl NotADirectoryError"
    using ne by (simp add: open_read_def node_at_def)
  have l1: "load_yaml_input (\<lambda>_. Inr ()) [ascii ''f.txt'', ascii ''x.yaml'']
      (constructed_state\<lparr>fs := ?f([ascii ''output''] \<mapsto> Dir)\<rparr>) =
      (Inl (Uncaught NotADirectoryError),
       constructed_state\<lparr>fs := ?f([ascii ''output''] \<mapsto> Dir)\<rparr>)"
    by (rule load_yaml_input_not_a_directory) (simp add: o1)
  have a1: "working_dir scenario_args = []" "templates_dir_arg scenario_args = [ascii ''templates'']"
    "output_dir_arg scenario_args = None"
    by (simp_all add: scenario_args_def)
  have out0: "out constructed_state = []" by (simp add: constructed_state_def)
  show "render_config_main (\<lambda>_. scenario_env) (\<lambda>_. Inr ())
     (scenario_args\<lparr>input_file := [ascii ''f.txt'', ascii ''x.yaml'']\<rparr>) ?f =
     (Inl (Uncaught NotADirectoryError), ?f([ascii ''output''] \<mapsto> Dir), [])"
    unfolding render_config_main_def by (simp add: a1 i1 l1 out0)
  have o2: "open_read [ascii ''output''] (fs constructed_state) = Inl IsADirectoryError"
    using ne by (simp add: open_read_def node_at_def constructed_state_def)
  have l2: "load_yaml_input (\<lambda>_. Inr ()) [ascii ''output''] constructed_state =
      (Inl (Uncaught IsADirectoryError), constructed_state)"
    by (simp add: load_yaml_input_def o2)
  have fsc: "fs constructed_state = [[ascii ''output''] \<mapsto> Dir]"
    by (simp add: constructed_state_def)
  show "render_config_main (\<lambda>_. scenario_env) (\<lambda>_. Inr ())
     (scenario_args\<lparr>input_file := [ascii ''output'']\<rparr>) Map.empty =
     (Inl (Uncaught IsADirectoryError), [[ascii ''output''] \<mapsto> Dir], [])"
    unfolding render_config_main_def by (simp add: a1 init_constructed l2 out0 fsc)
qed

text \<open>
  C6 as amended. When \<open>open\<close> fails because a component of the input path is missing,
  \<open>load_yaml_input\<close> catches \<open>FileNotFoundError\<close>, prints the not-found line and
  exits with status 1, and that is how the run ends. When a component above the file is
  a regular file, \<open>open\<close> raises \<open>NotADirectoryError\<close>, which is not caught. In both
  cases, that is whenever the input path does not exist when the loader opens it, the
  run ends with a non-zero exit status, and the files of the file system are afterwards
  exactly the files it had before, with the same contents: the constructor has at most
  created the output directory.
\<close>

theorem missing_input_exits_nonzero_without_output:
  "(\<forall>st. open_read (input_file a) (fs st) = Inl FileNotFoundError \<longrightarrow>
      load_yaml_input yaml (input_file a) st =
        (Inl (SystemExit 1), print (InputNotFound (input_file a)) st)) \<and>
   (\<forall>st. open_read (input_file a) (fs st) = Inl NotADirectoryError \<longrightarrow>
      load_yaml_input yaml (input_file a) st = (Inl (Uncaught NotADirectoryError), st)) \<and>
   (\<forall>st0.
      ConfigRenderer_init jinja (templates_dir_arg a)
        (case output_dir_arg a of
           None \<Rightarrow> working_dir a @ [ascii ''output''] | Some d \<Rightarrow> d) fs0 = Inr st0 \<and>
      open_read (input_file a) (fs st0) = Inl FileNotFoundError \<longrightarrow>
      render_config_main jinja yaml a fs0 =
        (Inl (SystemExit 1), fs st0, [InputNotFound (input_file a)])) \<and>
   ((\<forall>st0.
       ConfigRenderer_init jinja (templates_dir_arg a)
         (case output_dir_arg a of
            None \<Rightarrow> working_dir a @ [ascii ''output''] | Some d \<Rightarrow> d) fs0 = Inr st0 \<longrightarrow>
       open_read (input_file a) (fs st0) = Inl FileNotFoundError \<or>
       open_read (input_file a) (fs st0) = Inl NotADirectoryError) \<longrightarrow>
    exit_status (fst (render_config_main jinja yaml a fs0)) \<noteq> 0 \<and>
    (\<forall>p content.
       (fst (snd (render_config_main jinja yaml a fs0)) p = Some (File content)) =
       (fs0 p = Some (File content))))"
proof (intro conjI allI impI)
  fix st :: "'a state"
  assume "open_read (input_file a) (fs st) = Inl FileNotFoundError"
  then show "load_yaml_input yaml (input_file a) st =
        (Inl (SystemExit 1), print (InputNotFound (input_file a)) st)"
    by (rule load_yaml_input_not_found)
next
  fix st :: "'a state"
  assume "open_read (input_file a) (fs st) = Inl NotADirectoryError"
  then show "load_yaml_input yaml (input_file a) st = (Inl (Uncaught NotADirectoryError), st)"
    by (rule load_yaml_input_not_a_directory)
next
  fix st0 :: "'a state"
  assume h: "ConfigRenderer_init jinja (templates_dir_arg a)
        (case output_dir_arg a of
           None \<Rightarrow> working_dir a @ [ascii ''output''] | Some d \<Rightarrow> d) fs0 = Inr st0 \<and>
      open_read (input_file a) (fs st0) = Inl FileNotFoundError"
  then have "out st0 = []" using init_out by blast
  with h show "render_config_main jinja yaml a fs0 =
        (Inl (SystemExit 1), fs st0, [InputNotFound (input_file a)])"
    by (simp add: render_config_main_def load_yaml_input_not_found print_def)
next
  let ?init = "ConfigRenderer_init jinja (templates_dir_arg a)
         (case output_dir_arg a of
            None \<Rightarrow> working_dir a @ [ascii ''output''] | Some d \<Rightarrow> d) fs0"
  assume absent: "\<forall>st0. ?init = Inr st0 \<longrightarrow>
       open_read (input_file a) (fs st0) = Inl FileNotFoundError \<or>
       open_read (input_file a) (fs st0) = Inl NotADirectoryError"
  have run: "exit_status (fst (render_config_main jinja yaml a fs0)) \<noteq> 0 \<and>
    (\<forall>p content.
       (fst (snd (render_config_main jinja yaml a fs0)) p = Some (File content)) =
       (fs0 p = Some (File content)))"
  proof (cases ?init)
    case (Inl e)
    then show ?thesis by (simp add: render_config_main_def)
  next
    case (Inr st0)
    with absent have "open_read (input_file a) (fs st0) = Inl FileNotFoundError \<or>
       open_read (input_file a) (fs st0) = Inl NotADirectoryError" by blast
    then show ?thesis
    proof
      assume "open_read (input_file a) (fs st0) = Inl FileNotFoundError"
      then show ?thesis using Inr init_files [OF Inr]
        by (simp add: render_config_main_def load_yaml_input_not_found print_def)
    next
      assume "open_read (input_file a) (fs st0) = Inl NotADirectoryError"
      then show ?thesis using Inr init_files [OF Inr]
        by (simp add: render_config_main_def load_yaml_input_not_a_directory)
    qed
  qed
  from run show "exit_status (fst (render_config_main jinja yaml a fs0)) \<noteq> 0" by blast
  fix p content
  from run show "(fst (snd (render_config_main jinja yaml a fs0)) p = Some (File content)) =
       (fs0 p = Some (File content))" by blast
qed

theorem missing_input_exits_nonzero_without_output_witness:
  "open_read (input_file scenario_args) (fs constructed_state) = Inl FileNotFoundError \<and>
   load_yaml_input (\<lambda>_. Inr ()) (input_file scenario_args) constructed_state =
     (Inl (SystemExit 1), print (InputNotFound (input_file scenario_args)) constructed_state) \<and>
   open_read [ascii ''f.txt'', ascii ''x.yaml'']
     (fs (constructed_state\<lparr>fs := [[ascii ''f.txt''] \<mapsto> File []]\<rparr>)) = Inl NotADirectoryError \<and>
   load_yaml_input (\<lambda>_. Inr ()) [ascii ''f.txt'', ascii ''x.yaml'']
       (constructed_state\<lparr>fs := [[ascii ''f.txt''] \<mapsto> File []]\<rparr>) =
     (Inl (Uncaught NotADirectoryError),
      constructed_state\<lparr>fs := [[ascii ''f.txt''] \<mapsto> File []]\<rparr>) \<and>
   ConfigRenderer_init (\<lambda>_. scenario_env) (templates_dir_arg scenario_args)
     (case output_dir_arg scenario_args of
        None \<Rightarrow> working_dir scenario_args @ [ascii ''output''] | Some d \<Rightarrow> d) Map.empty =
     Inr constructed_state \<and>
   render_config_main (\<lambda>_. scenario_env) (\<lambda>_. Inr ()) scenario_args Map.empty =
     (Inl (SystemExit 1), fs constructed_state, [InputNotFound (input_file scenario_args)]) \<and>
   exit_status (fst (render_config_main (\<lambda>_. scenario_env) (\<lambda>_. Inr ()) scenario_args
                      Map.empty)) \<noteq> 0 \<and>
   (\<forall>content.
      fst (snd (render_config_main (\<lambda>_. scenario_env) (\<lambda>_. Inr ()) scenario_args Map.empty))
        [ascii ''device_config.txt''] \<noteq> Some (File content))"
proof -
  have ne: "ascii ''f.txt'' \<noteq> ascii ''..''" "ascii ''output'' \<noteq> ascii ''..''"
    "ascii ''output'' \<noteq> ascii ''intent.yaml''" "ascii ''intent.yaml'' \<noteq> ascii ''..''"
    by (simp_all add: ascii_def)
  have inp: "input_file scenario_args = [ascii ''intent.yaml'']"
    by (simp add: scenario_args_def)
  have h1: "open_read (input_file scenario_args) (fs constructed_state) = Inl FileNotFoundError"
    using ne by (simp add: inp open_read_def node_at_def constructed_state_def)
  note t = missing_input_exits_nonzero_without_output
    [of scenario_args "\<lambda>_. Inr ()" "\<lambda>_. scenario_env" Map.empty]
  from t h1 have c1: "load_yaml_input (\<lambda>_. Inr ()) (input_file scenario_args) constructed_state =
     (Inl (SystemExit 1), print (InputNotFound (input_file scenario_args)) constructed_state)"
    by blast
  let ?a2 = "scenario_args\<lparr>input_file := [ascii ''f.txt'', ascii ''x.yaml'']\<rparr>"
  let ?st2 = "constructed_state\<lparr>fs := [[ascii ''f.txt''] \<mapsto> File []]\<rparr>"
  have h2: "open_read (input_file ?a2) (fs ?st2) = Inl NotADirectoryError"
    using ne by (simp add: open_read_def node_at_def)
  note t2 = missing_input_exits_nonzero_without_output
    [of ?a2 "\<lambda>_. Inr ()" "\<lambda>_. scenario_env" Map.empty]
  from t2 h2 have "load_yaml_input (\<lambda>_. Inr ()) (input_file ?a2) ?st2 =
     (Inl (Uncaught NotADirectoryError), ?st2)"
    by blast
  then have c2: "load_yaml_input (\<lambda>_. Inr ()) [ascii ''f.txt'', ascii ''x.yaml''] ?st2 =
     (Inl (Uncaught NotADirectoryError), ?st2)" by simp
  have init: "ConfigRenderer_init (\<lambda>_. scenario_env) (templates_dir_arg scenario_args)
     (case output_dir_arg scenario_args of
        None \<Rightarrow> working_dir scenario_args @ [ascii ''output''] | Some d \<Rightarrow> d) Map.empty =
     Inr constructed_state"
    using init_constructed by (simp add: scenario_args_def)
  from t init h1 have c3: "render_config_main (\<lambda>_. scenario_env) (\<lambda>_. Inr ()) scenario_args
      Map.empty =
     (Inl (SystemExit 1), fs constructed_state, [InputNotFound (input_file scenario_args)])"
    by blast
  have absent: "\<forall>st0. ConfigRenderer_init (\<lambda>_. scenario_env) (templates_dir_arg scenario_args)
         (case output_dir_arg scenario_args of
            None \<Rightarrow> working_dir scenario_args @ [ascii ''output''] | Some d \<Rightarrow> d) Map.empty =
           Inr st0 \<longrightarrow>
       open_read (input_file scenario_args) (fs st0) = Inl FileNotFoundError \<or>
       open_read (input_file scenario_args) (fs st0) = Inl NotADirectoryError"
    using init h1 by auto
  from t absent have c4: "exit_status (fst (render_config_main (\<lambda>_. scenario_env) (\<lambda>_. Inr ())
      scenario_args Map.empty)) \<noteq> 0 \<and>
    (\<forall>p content.
       (fst (snd (render_config_main (\<lambda>_. scenario_env) (\<lambda>_. Inr ()) scenario_args Map.empty)) p =
          Some (File content)) = (Map.empty p = Some (File content)))"
    by blast
  then have c5: "\<forall>content.
      fst (snd (render_config_main (\<lambda>_. scenario_env) (\<lambda>_. Inr ()) scenario_args Map.empty))
        [ascii ''device_config.txt''] \<noteq> Some (File content)"
    by simp
  from h2 have h2': "open_read [ascii ''f.txt'', ascii ''x.yaml''] (fs ?st2) = Inl NotADirectoryError"
    by simp
  from h1 c1 h2' c2 init c3 c4 c5 show ?thesis by blast
qed

section \<open>Writing the output\<close>





section \<open>The change-management status\<close>

lemma update_change_request_put_state:
  "update_change_request web now snow change_number status comments = (success, sent) \<Longrightarrow>
     PUT r \<in> set sent \<Longrightarrow> state_field r = status"
  by (auto simp: update_change_request_def Let_def split: sum.splits if_splits)

lemma update_change_request_sends:
  assumes "requests_get web
             \<lparr>get_url = instance_url snow @ ascii ''/api/now/table/change_request'',
              get_auth = auth snow,
              sysparm_query = ascii ''number='' @ change_number,
              sysparm_limit = 1\<rparr> = Inr resp"
    and "status_code resp = 200"
    and "json_body resp = Inr data"
    and "json_get data (ascii ''result'') = Inr result"
    and "truthy result"
    and "json_first result = Inr change_record"
    and "json_item change_record (ascii ''sys_id'') = Inr sys_id"
  shows "snd (update_change_request web now snow change_number status comments) =
           [GET \<lparr>get_url = instance_url snow @ ascii ''/api/now/table/change_request'',
                 get_auth = auth snow,
                 sysparm_query = ascii ''number='' @ change_number,
                 sysparm_limit = 1\<rparr>,
            PUT \<lparr>put_url = instance_url snow @ ascii ''/api/now/table/change_request'',
                 put_sys_id = sys_id,
                 put_auth = auth snow,
                 state_field = status,
                 work_notes = ascii ''GitHub Actions Update: '' @ comments @
                              [92, 110, 92, 110] @ ascii ''Timestamp: '' @ now\<rparr>]"
  using assms by (simp add: update_change_request_def Let_def split: sum.splits)

text \<open>
  C8. The status label is \<open>Review\<close> for the outcome \<open>success\<close>, \<open>Authorize\<close> for
  \<open>failure\<close>, \<open>Cancelled\<close> for \<open>cancelled\<close> and \<open>Authorize\<close> for every other
  value. Every update request that \<open>main\<close> sends carries, as the state of the change
  record, the label of the outcome read from \<open>WORKFLOW_STATUS\<close> (\<open>unknown\<close> when
  unset). And whatever the outcome is, when the credentials are configured and the
  lookup finds the change record, \<open>main\<close> sends exactly the lookup and then the update
  of that record with this label as its state.
\<close>

theorem workflow_status_maps_to_change_state:
  "dict_get status_mapping workflow_status (ascii ''Authorize'') =
     (if workflow_status = ascii ''success'' then ascii ''Review''
      else if workflow_status = ascii ''failure'' then ascii ''Authorize''
      else if workflow_status = ascii ''cancelled'' then ascii ''Cancelled''
      else ascii ''Authorize'') \<and>
   (\<forall>r. PUT r \<in> set (snd (servicenow_main getenv web now)) \<longrightarrow>
      state_field r =
        dict_get status_mapping
          (case getenv (ascii ''WORKFLOW_STATUS'') of None \<Rightarrow> ascii ''unknown'' | Some v \<Rightarrow> v)
          (ascii ''Authorize'')) \<and>
   (\<forall>url username password change_number outcome resp data result change_record sys_id.
      getenv (ascii ''SERVICENOW_INSTANCE_URL'') = Some url \<and> url \<noteq> [] \<and>
      getenv (ascii ''SERVICENOW_USERNAME'') = Some username \<and> username \<noteq> [] \<and>
      getenv (ascii ''SERVICENOW_PASSWORD'') = Some password \<and> password \<noteq> [] \<and>
      change_number =
        (case getenv (ascii ''GITHUB_HEAD_REF'') of None \<Rightarrow> ascii ''CHG0000000'' | Some v \<Rightarrow> v) \<and>
      outcome =
        (case getenv (ascii ''WORKFLOW_STATUS'') of None \<Rightarrow> ascii ''unknown'' | Some v \<Rightarrow> v) \<and>
      requests_get web
        \<lparr>get_url = url @ ascii ''/api/now/table/change_request'',
         get_auth = (username, password),
         sysparm_query = ascii ''number='' @ change_number,
         sysparm_limit = 1\<rparr> = Inr resp \<and>
      status_code resp = 200 \<and>
      json_body resp = Inr data \<and>
      json_get data (ascii ''result'') = Inr result \<and>
      truthy result \<and>
      json_first result = Inr change_record \<and>
      json_item change_record (ascii ''sys_id'') = Inr sys_id \<longrightarrow>
      snd (servicenow_main getenv web now) =
        [GET \<lparr>get_url = url @ ascii ''/api/now/table/change_request'',
              get_auth = (username, password),
              sysparm_query = ascii ''number='' @ change_number,
              sysparm_limit = 1\<rparr>,
         PUT \<lparr>put_url = url @ ascii ''/api/now/table/change_request'',
              put_sys_id = sys_id,
              put_auth = (username, password),
              state_field = dict_get status_mapping outcome (ascii ''Authorize''),
              work_notes =
                ascii ''GitHub Actions Update: '' @
                (ascii ''GitHub Actions workflow completed with status: '' @ outcome) @
                [92, 110, 92, 110] @ ascii ''Timestamp: '' @ now\<rparr>])"
proof (intro conjI allI impI)
  show "dict_get status_mapping workflow_status (ascii ''Authorize'') =
     (if workflow_status = ascii ''success'' then ascii ''Review''
      else if workflow_status = ascii ''failure'' then ascii ''Authorize''
      else if workflow_status = ascii ''cancelled'' then ascii ''Cancelled''
      else ascii ''Authorize'')"
    by (simp add: dict_get_def status_mapping_def)
next
  fix r
  assume "PUT r \<in> set (snd (servicenow_main getenv web now))"
  then show "state_field r =
        dict_get status_mapping
          (case getenv (ascii ''WORKFLOW_STATUS'') of None \<Rightarrow> ascii ''unknown'' | Some v \<Rightarrow> v)
          (ascii ''Authorize'')"
    by (auto simp: servicenow_main_def Let_def split: option.splits if_splits prod.splits
        dest: update_change_request_put_state)
next
  fix url username password change_number outcome resp data result change_record sys_id
  assume a: "getenv (ascii ''SERVICENOW_INSTANCE_URL'') = Some url \<and> url \<noteq> [] \<and>
      getenv (ascii ''SERVICENOW_USERNAME'') = Some username \<and> username \<noteq> [] \<and>
      getenv (ascii ''SERVICENOW_PASSWORD'') = Some password \<and> password \<noteq> [] \<and>
      change_number =
        (case getenv (ascii ''GITHUB_HEAD_REF'') of None \<Rightarrow> ascii ''CHG0000000'' | Some v \<Rightarrow> v) \<and>
      outcome =
        (case getenv (ascii ''WORKFLOW_STATUS'') of None \<Rightarrow> ascii ''unknown'' | Some v \<Rightarrow> v) \<and>
      requests_get web
        \<lparr>get_url = url @ ascii ''/api/now/table/change_request'',
         get_auth = (username, password),
         sysparm_query = ascii ''number='' @ change_number,
         sysparm_limit = 1\<rparr> = Inr resp \<and>
      status_code resp = 200 \<and>
      json_body resp = Inr data \<and>
      json_get data (ascii ''result'') = Inr result \<and>
      truthy result \<and>
      json_first result = Inr change_record \<and>
      json_item change_record (ascii ''sys_id'') = Inr sys_id"
  let ?snow = "ServiceNowIntegration_init url username password"
  have i: "instance_url ?snow = url" "auth ?snow = (username, password)"
    by (simp_all add: ServiceNowIntegration_init_def)
  from a have g0: "requests_get web
        \<lparr>get_url = url @ ascii ''/api/now/table/change_request'',
         get_auth = (username, password),
         sysparm_query = ascii ''number='' @ change_number,
         sysparm_limit = 1\<rparr> = Inr resp"
    by blast
  have g: "requests_get web
             \<lparr>get_url = instance_url ?snow @ ascii ''/api/now/table/change_request'',
              get_auth = auth ?snow,
              sysparm_query = ascii ''number='' @ change_number,
              sysparm_limit = 1\<rparr> = Inr resp"
    unfolding i by (rule g0)
  from a have rest: "status_code resp = 200" "json_body resp = Inr data"
    "json_get data (ascii ''result'') = Inr result" "truthy result"
    "json_first result = Inr change_record" "json_item change_record (ascii ''sys_id'') = Inr sys_id"
    by blast+
  from a have cn: "(case getenv (ascii ''GITHUB_HEAD_REF'') of
        None \<Rightarrow> ascii ''CHG0000000'' | Some v \<Rightarrow> v) = change_number"
    and oc: "(case getenv (ascii ''WORKFLOW_STATUS'') of
        None \<Rightarrow> ascii ''unknown'' | Some v \<Rightarrow> v) = outcome"
    and creds: "getenv (ascii ''SERVICENOW_INSTANCE_URL'') = Some url" "url \<noteq> []"
      "getenv (ascii ''SERVICENOW_USERNAME'') = Some username" "username \<noteq> []"
      "getenv (ascii ''SERVICENOW_PASSWORD'') = Some password" "password \<noteq> []"
    by blast+
  note sends = update_change_request_sends [OF g rest, of now
      "dict_get status_mapping outcome (ascii ''Authorize'')"
      "ascii ''GitHub Actions workflow completed with status: '' @ outcome"]
  have m: "servicenow_main getenv web now =
      (case update_change_request web now ?snow change_number
              (dict_get status_mapping outcome (ascii ''Authorize''))
              (ascii ''GitHub Actions workflow completed with status: '' @ outcome) of
         (success, sent) \<Rightarrow> (if \<not> success then 1 else 0, sent))"
    by (simp add: servicenow_main_def configured_def Let_def cn oc creds)
  show "snd (servicenow_main getenv web now) =
        [GET \<lparr>get_url = url @ ascii ''/api/now/table/change_request'',
              get_auth = (username, password),
              sysparm_query = ascii ''number='' @ change_number,
              sysparm_limit = 1\<rparr>,
         PUT \<lparr>put_url = url @ ascii ''/api/now/table/change_request'',
              put_sys_id = sys_id,
              put_auth = (username, password),
              state_field = dict_get status_mapping outcome (ascii ''Authorize''),
              work_notes =
                ascii ''GitHub Actions Update: '' @
                (ascii ''GitHub Actions workflow completed with status: '' @ outcome) @
                [92, 110, 92, 110] @ ascii ''Timestamp: '' @ now\<rparr>]"
    using sends by (auto simp: m i split: prod.splits)
qed

lemma scenario_getenv_failure_values:
  "scenario_getenv_failure (ascii ''SERVICENOW_INSTANCE_URL'') = Some (ascii ''https://snow.example'')"
  "scenario_getenv_failure (ascii ''SERVICENOW_USERNAME'') = Some (ascii ''bot'')"
  "scenario_getenv_failure (ascii ''SERVICENOW_PASSWORD'') = Some (ascii ''secret'')"
  "scenario_getenv_failure (ascii ''GITHUB_HEAD_REF'') = Some (ascii ''CHG0012345'')"
  "scenario_getenv_failure (ascii ''WORKFLOW_STATUS'') = Some (ascii ''failure'')"
  by (simp_all add: scenario_getenv_failure_def scenario_getenv_def ascii_def)

theorem workflow_status_maps_to_change_state_witness:
  "PUT \<lparr>put_url = ascii ''https://snow.example/api/now/table/change_request'',
         put_sys_id = JStr (ascii ''abc123''),
         put_auth = (ascii ''bot'', ascii ''secret''),
         state_field = ascii ''Review'',
         work_notes = ascii ''GitHub Actions Update: '' @
                      ascii ''GitHub Actions workflow completed with status: success'' @
                      [92, 110, 92, 110] @ ascii ''Timestamp: '' @ ascii ''2024-01-01T00:00:00''\<rparr>
     \<in> set (snd (servicenow_main scenario_getenv scenario_web (ascii ''2024-01-01T00:00:00''))) \<and>
   dict_get status_mapping
     (case scenario_getenv (ascii ''WORKFLOW_STATUS'') of
        None \<Rightarrow> ascii ''unknown'' | Some v \<Rightarrow> v)
     (ascii ''Authorize'') = ascii ''Review'' \<and>
   snd (servicenow_main scenario_getenv_failure scenario_web (ascii ''2024-01-01T00:00:00'')) =
     [GET \<lparr>get_url = ascii ''https://snow.example'' @ ascii ''/api/now/table/change_request'',
           get_auth = (ascii ''bot'', ascii ''secret''),
           sysparm_query = ascii ''number='' @ ascii ''CHG0012345'',
           sysparm_limit = 1\<rparr>,
      PUT \<lparr>put_url = ascii ''https://snow.example'' @ ascii ''/api/now/table/change_request'',
           put_sys_id = JStr (ascii ''abc123''),
           put_auth = (ascii ''bot'', ascii ''secret''),
           state_field = ascii ''Authorize'',
           work_notes =
             ascii ''GitHub Actions Update: '' @
             (ascii ''GitHub Actions workflow completed with status: '' @ ascii ''failure'') @
             [92, 110, 92, 110] @ ascii ''Timestamp: '' @ ascii ''2024-01-01T00:00:00''\<rparr>]"
proof -
  let ?now = "ascii ''2024-01-01T00:00:00''"
  let ?r = "\<lparr>put_url = ascii ''https://snow.example/api/now/table/change_request'',
         put_sys_id = JStr (ascii ''abc123''),
         put_auth = (ascii ''bot'', ascii ''secret''),
         state_field = ascii ''Review'',
         work_notes = ascii ''GitHub Actions Update: '' @
                      ascii ''GitHub Actions workflow completed with status: success'' @
                      [92, 110, 92, 110] @ ascii ''Timestamp: '' @ ?now\<rparr>"
  have sent: "PUT ?r \<in> set (snd (servicenow_main scenario_getenv scenario_web ?now))"
    by (simp add: servicenow_main_def scenario_getenv_def scenario_web_def configured_def
        ServiceNowIntegration_init_def update_change_request_def dict_get_def
        status_mapping_def Let_def ascii_def)
  from workflow_status_maps_to_change_state
    [of "ascii ''success''" scenario_getenv scenario_web ?now] sent
  have one: "state_field ?r = dict_get status_mapping
     (case scenario_getenv (ascii ''WORKFLOW_STATUS'') of
        None \<Rightarrow> ascii ''unknown'' | Some v \<Rightarrow> v)
     (ascii ''Authorize'')" by blast
  let ?resp = "\<lparr>status_code = 200,
      json_body = Inr (JDict [(ascii ''result'',
        JList [JDict [(ascii ''sys_id'', JStr (ascii ''abc123''))]])])\<rparr>"
  have hyp: "scenario_getenv_failure (ascii ''SERVICENOW_INSTANCE_URL'') =
        Some (ascii ''https://snow.example'') \<and> ascii ''https://snow.example'' \<noteq> [] \<and>
      scenario_getenv_failure (ascii ''SERVICENOW_USERNAME'') = Some (ascii ''bot'') \<and>
      ascii ''bot'' \<noteq> [] \<and>
      scenario_getenv_failure (ascii ''SERVICENOW_PASSWORD'') = Some (ascii ''secret'') \<and>
      ascii ''secret'' \<noteq> [] \<and>
      ascii ''CHG0012345'' =
        (case scenario_getenv_failure (ascii ''GITHUB_HEAD_REF'') of
           None \<Rightarrow> ascii ''CHG0000000'' | Some v \<Rightarrow> v) \<and>
      ascii ''failure'' =
        (case scenario_getenv_failure (ascii ''WORKFLOW_STATUS'') of
           None \<Rightarrow> ascii ''unknown'' | Some v \<Rightarrow> v) \<and>
      requests_get scenario_web
        \<lparr>get_url = ascii ''https://snow.example'' @ ascii ''/api/now/table/change_request'',
         get_auth = (ascii ''bot'', ascii ''secret''),
         sysparm_query = ascii ''number='' @ ascii ''CHG0012345'',
         sysparm_limit = 1\<rparr> = Inr ?resp \<and>
      status_code ?resp = 200 \<and>
      json_body ?resp = Inr (JDict [(ascii ''result'',
        JList [JDict [(ascii ''sys_id'', JStr (ascii ''abc123''))]])]) \<and>
      json_get (JDict [(ascii ''result'',
        JList [JDict [(ascii ''sys_id'', JStr (ascii ''abc123''))]])]) (ascii ''result'') =
        Inr (JList [JDict [(ascii ''sys_id'', JStr (ascii ''abc123''))]]) \<and>
      truthy (JList [JDict [(ascii ''sys_id'', JStr (ascii ''abc123''))]]) \<and>
      json_first (JList [JDict [(ascii ''sys_id'', JStr (ascii ''abc123''))]]) =
        Inr (JDict [(ascii ''sys_id'', JStr (ascii ''abc123''))]) \<and>
      json_item (JDict [(ascii ''sys_id'', JStr (ascii ''abc123''))]) (ascii ''sys_id'') =
        Inr (JStr (ascii ''abc123''))"
    by (simp add: scenario_getenv_failure_values scenario_web_def) (simp add: ascii_def)
  have label: "dict_get status_mapping (ascii ''failure'') (ascii ''Authorize'') = ascii ''Authorize''"
    by (simp add: dict_get_def status_mapping_def ascii_def)
  from workflow_status_maps_to_change_state
    [of "ascii ''failure''" scenario_getenv_failure scenario_web ?now] hyp
  have two: "snd (servicenow_main scenario_getenv_failure scenario_web ?now) =
     [GET \<lparr>get_url = ascii ''https://snow.example'' @ ascii ''/api/now/table/change_request'',
           get_auth = (ascii ''bot'', ascii ''secret''),
           sysparm_query = ascii ''number='' @ ascii ''CHG0012345'',
           sysparm_limit = 1\<rparr>,
      PUT \<lparr>put_url = ascii ''https://snow.example'' @ ascii ''/api/now/table/change_request'',
           put_sys_id = JStr (ascii ''abc123''),
           put_auth = (ascii ''bot'', ascii ''secret''),
           state_field = dict_get status_mapping (ascii ''failure'') (ascii ''Authorize''),
           work_notes =
             ascii ''GitHub Actions Update: '' @
             (ascii ''GitHub Actions workflow completed with status: '' @ ascii ''failure'') @
             [92, 110, 92, 110] @ ascii ''Timestamp: '' @ ?now\<rparr>]"
    by blast
  from sent one two label show ?thesis by simp
qed

end
